theory Spec2Isabelle
  imports Main "HOL-Library.Sublist"
begin

section \<open>Python values used by the easyblocks\<close>

text \<open>
  Strings are Python 2 byte strings, modelled as \<open>string\<close>. The test \<open>a in b\<close> on two
  strings and \<open>re.compile(a).search(b)\<close> for a literal \<open>a\<close> are both the contiguous
  substring test, \<^const>\<open>sublist\<close>.
\<close>

text \<open>Truthiness of what \<open>os.getenv\<close>, \<open>get_software_root\<close> or an optional string
  setting returns: \<open>None\<close> and the empty string are false.\<close>

definition truthy :: "string option \<Rightarrow> bool" where
  "truthy v = (case v of None \<Rightarrow> False | Some s \<Rightarrow> s \<noteq> [])"

text \<open>\<open>'%s' % v\<close> for a value that is a string or \<open>None\<close>.\<close>

definition fmt_s :: "string option \<Rightarrow> string" where
  "fmt_s v = (case v of None \<Rightarrow> ''None'' | Some s \<Rightarrow> s)"

text \<open>\<open>'%d' % b\<close> for a boolean.\<close>

definition fmt_d_bool :: "bool \<Rightarrow> string" where
  "fmt_d_bool b = (if b then ''1'' else ''0'')"

text \<open>Decimal digits of a natural number, as \<open>str\<close> prints an int.\<close>

fun str_nat :: "nat \<Rightarrow> string" where
  "str_nat n =
     (if n < 10 then [char_of (48 + n)] else str_nat (n div 10) @ [char_of (48 + n mod 10)])"

declare str_nat.simps [simp del]

text \<open>\<open>str.lower\<close> and \<open>str.upper\<close> on ASCII letters.\<close>

definition lower_char :: "char \<Rightarrow> char" where
  "lower_char c =
     (let n = (of_char c :: nat) in if 65 \<le> n \<and> n \<le> 90 then char_of (n + 32) else c)"

definition upper_char :: "char \<Rightarrow> char" where
  "upper_char c =
     (let n = (of_char c :: nat) in if 97 \<le> n \<and> n \<le> 122 then char_of (n - 32) else c)"

definition str_lower :: "string \<Rightarrow> string" where
  "str_lower s = map lower_char s"

definition str_upper :: "string \<Rightarrow> string" where
  "str_upper s = map upper_char s"

text \<open>\<open>sep.join(xs)\<close>.\<close>

fun str_join :: "string \<Rightarrow> string list \<Rightarrow> string" where
  "str_join sep [] = []"
| "str_join sep [x] = x"
| "str_join sep (x # y # ys) = x @ sep @ str_join sep (y # ys)"

text \<open>\<open>os.path.join\<close> of posixpath: a component that starts with a slash replaces what
  was joined so far; otherwise it is appended, after a slash unless the path so far is
  empty or already ends with one.\<close>

definition path_join2 :: "string \<Rightarrow> string \<Rightarrow> string" where
  "path_join2 path b =
     (if b \<noteq> [] \<and> hd b = CHR ''/'' then b
      else if path = [] \<or> last path = CHR ''/'' then path @ b
      else path @ ''/'' @ b)"

definition os_path_join :: "string \<Rightarrow> string list \<Rightarrow> string" where
  "os_path_join a p = foldl path_join2 a p"

text \<open>The arguments an \<open>EasyBuildError\<close> is raised with: the message (a format string
  where the source passes one) and the values to be formatted into it.\<close>

datatype fmt_arg = ArgStr string | ArgInt nat | ArgList "string list"

datatype EasyBuildError = EasyBuildError string "fmt_arg list"

section \<open>The configuration object\<close>

text \<open>Modelled from the spec: \<open>EasyConfig.update\<close> of the host framework is not part of the
  sources. Section 3 has flags "appended to a configopts/buildopts string-valued option"
  and section 6 has the flags "space-joined": the new value follows the old one after a
  single space.
\<close>

definition cfg_update :: "string \<Rightarrow> string \<Rightarrow> string" where
  "cfg_update prev v = prev @ '' '' @ v"

section \<open>Blender\<close>

subsection \<open>find_glob_pattern\<close>

text \<open>\<open>glob.glob\<close> reads the file system; its result for the pattern is the parameter
  \<open>glob\<close>.\<close>

definition find_glob_pattern :: "(string \<Rightarrow> string list) \<Rightarrow> string \<Rightarrow> EasyBuildError + string" where
  "find_glob_pattern glob glob_pattern =
     (let res = glob glob_pattern in
      if length res \<noteq> 1
      then Inl (EasyBuildError
                  (''Was expecting exactly one match for '' @ [CHR 0x27] @ ''%s'' @ [CHR 0x27] @
                   '', found %d: %s'')
                  [ArgStr glob_pattern, ArgInt (length res), ArgList res])
      else Inr (res ! 0))"

subsection \<open>The default options of configure_step\<close>

definition default_config_opts :: "(string \<times> string) list" where
  "default_config_opts =
     [(''WITH_INSTALL_PORTABLE'', ''OFF''),
      (''WITH_BUILDINFO'', ''OFF''),
      (''WITH_CPU_SSE'', ''OFF''),
      (''CMAKE_C_FLAGS_RELEASE'', ''-DNDEBUG''),
      (''CMAKE_CXX_FLAGS_RELEASE'', ''-DNDEBUG''),
      (''WITH_GAMEENGINE'', ''OFF''),
      (''WITH_SYSTEM_GLEW'', ''OFF'')]"

text \<open>\<open>opt = '-D%s=' % key\<close>.\<close>

definition blender_opt :: "string \<Rightarrow> string" where
  "blender_opt key = ''-D'' @ key @ ''=''"

text \<open>The loop over the defaults, for the items of the dictionary in the order the
  iteration yields them; the state is the value of \<open>cfg['configopts']\<close>.\<close>

fun apply_default_config_opts :: "(string \<times> string) list \<Rightarrow> string \<Rightarrow> string" where
  "apply_default_config_opts [] configopts = configopts"
| "apply_default_config_opts ((key, val) # rest) configopts =
     apply_default_config_opts rest
       (if \<not> sublist (blender_opt key) configopts
        then cfg_update configopts (blender_opt key @ val)
        else configopts)"

text \<open>\<open>custom_paths\<close> of a sanity check: the files and the directories expected under
  the installation prefix.\<close>

record custom_paths =
  files :: "string list"
  dirs :: "string list"

definition blender_custom_paths :: custom_paths where
  "blender_custom_paths = \<lparr>files = [''bin/blender''], dirs = []\<rparr>"

section \<open>Version tokens\<close>

text \<open>
  \<open>distutils.version.LooseVersion\<close> of the Python 2 standard library. The version
  string is split by \<open>(\d+ | [a-z]+ | \.)\<close>: runs of digits and runs of lower-case
  letters are components, every dot is dropped, and a run of any other characters between
  two matches is a component of its own. A component of digits becomes an int. Two
  versions compare as Python 2 compares the two lists: element by element, an int below
  every string, ints by value, strings byte by byte, and a proper prefix below the longer
  list.
\<close>

datatype component = CInt nat | CStr string

datatype char_class = Digit | Lower | Dot | Other

definition class_of :: "char \<Rightarrow> char_class" where
  "class_of c =
     (let n = (of_char c :: nat) in
      if 48 \<le> n \<and> n \<le> 57 then Digit
      else if 97 \<le> n \<and> n \<le> 122 then Lower
      else if n = 46 then Dot
      else Other)"

definition int_of_digits :: "string \<Rightarrow> nat" where
  "int_of_digits ds = foldl (\<lambda>n d. 10 * n + ((of_char d :: nat) - 48)) 0 ds"

definition mk_component :: "char_class \<Rightarrow> string \<Rightarrow> component" where
  "mk_component k run = (if k = Digit then CInt (int_of_digits run) else CStr run)"

function LooseVersion :: "string \<Rightarrow> component list" where
  "LooseVersion [] = []"
| "LooseVersion (c # cs) =
     (if class_of c = Dot then LooseVersion cs
      else mk_component (class_of c) (c # takeWhile (\<lambda>d. class_of d = class_of c) cs)
             # LooseVersion (dropWhile (\<lambda>d. class_of d = class_of c) cs))"
  by pat_completeness auto
termination
  by (relation "measure length") (auto simp: length_dropWhile_le less_Suc_eq_le)

text \<open>\<open>cmp\<close> of Python 2, with results \<open>-1\<close>, \<open>0\<close> and \<open>1\<close>.\<close>

fun cmp_str :: "string \<Rightarrow> string \<Rightarrow> int" where
  "cmp_str [] [] = 0"
| "cmp_str [] (y # ys) = -1"
| "cmp_str (x # xs) [] = 1"
| "cmp_str (x # xs) (y # ys) =
     (if (of_char x :: nat) < of_char y then -1
      else if (of_char y :: nat) < of_char x then 1
      else cmp_str xs ys)"

fun cmp_component :: "component \<Rightarrow> component \<Rightarrow> int" where
  "cmp_component (CInt a) (CInt b) = (if a < b then -1 else if b < a then 1 else 0)"
| "cmp_component (CInt a) (CStr t) = -1"
| "cmp_component (CStr s) (CInt b) = 1"
| "cmp_component (CStr s) (CStr t) = cmp_str s t"

fun cmp_version :: "component list \<Rightarrow> component list \<Rightarrow> int" where
  "cmp_version [] [] = 0"
| "cmp_version [] (y # ys) = -1"
| "cmp_version (x # xs) [] = 1"
| "cmp_version (x # xs) (y # ys) =
     (if cmp_component x y \<noteq> 0 then cmp_component x y else cmp_version xs ys)"

text \<open>\<open>LooseVersion(a) >= LooseVersion(b)\<close>.\<close>

definition version_ge :: "string \<Rightarrow> string \<Rightarrow> bool" where
  "version_ge a b = (0 \<le> cmp_version (LooseVersion a) (LooseVersion b))"

section \<open>MVAPICH2\<close>

text \<open>The settings of the easyconfig that configure_step reads, with the defaults of
  extra_options, and the option string it extends.\<close>

record mvapich2 =
  mv_version :: string
  mv_withchkpt :: bool
  mv_withmpe :: bool
  mv_withhwloc :: bool
  mv_withlimic2 :: bool
  mv_debug :: bool
  mv_rdma_type :: string
  mv_blcr_path :: "string option"
  mv_blcr_inc_path :: "string option"
  mv_blcr_lib_path :: "string option"
  mv_configopts :: string

text \<open>\<open>self.use_new_libnames\<close> of the constructor.\<close>

definition use_new_libnames :: "mvapich2 \<Rightarrow> bool" where
  "use_new_libnames self = version_ge (mv_version self) ''2.1''"

text \<open>The list \<open>add_configopts\<close> as configure_step builds it, one append or extend
  after the other.\<close>

definition add_configopts :: "mvapich2 \<Rightarrow> string list" where
  "add_configopts self =
     [''--with-rdma='' @ mv_rdma_type self]
     @ [''--with-thread-package=pthreads'']
     @ (if mv_debug self then [''--enable-fast=none''] else [''--enable-fast''])
     @ [''--enable-shared'', ''--enable-sharedlibs=gcc'']
     @ [''--enable-f77'', ''--enable-fc'', ''--enable-cxx'']
     @ (if mv_withmpe self then [''--enable-mpe''] else [])
     @ (if mv_withlimic2 self then [''--enable-limic2''] else [])
     @ (if mv_withchkpt self then [''--enable-checkpointing'', ''--with-hydra-ckpointlib=blcr''] else [])
     @ (if mv_withhwloc self then [''--with-hwloc''] else [])
     @ (if truthy (mv_blcr_path self) then [''--with-blcr='' @ fmt_s (mv_blcr_path self)] else [])
     @ (if truthy (mv_blcr_inc_path self)
        then [''--with-blcr-include='' @ fmt_s (mv_blcr_inc_path self)] else [])
     @ (if truthy (mv_blcr_lib_path self)
        then [''--with-blcr-libpath='' @ fmt_s (mv_blcr_lib_path self)] else [])"

text \<open>
  configure_step: the joined options are appended to \<open>configopts\<close>, then the step of the
  parent class runs. The parent class (EB_MPICH, on ConfigureMake) is not part of the
  sources; it is the parameter \<open>super_configure\<close>, which is given the configuration as
  this step leaves it and either raises or returns the output of the configure command.
  The step itself returns nothing: its result is the configuration, or the error raised.
\<close>

definition mvapich2_configure_step ::
  "(mvapich2 \<Rightarrow> EasyBuildError + string) \<Rightarrow> mvapich2 \<Rightarrow> EasyBuildError + mvapich2" where
  "mvapich2_configure_step super_configure self =
     (let self' = self\<lparr>mv_configopts :=
                    cfg_update (mv_configopts self) (str_join '' '' (add_configopts self))\<rparr>
      in case super_configure self' of Inl e \<Rightarrow> Inl e | Inr out \<Rightarrow> Inr self')"

section \<open>The sanity check of the parent class\<close>

text \<open>Modelled from the spec: \<open>sanity_check_step(custom_paths)\<close> of the parent class is not
  part of the sources. Section 4.2: it "fails with MissingArtifactError listing every
  absent path if any expected file or directory is not present post-install", and
  section 8 has it succeed silently when all are there. The two predicates say which
  files and which directories exist under the installation prefix.
\<close>

datatype sanity_error = MissingArtifactError "string list"

definition verify_installed ::
  "(string \<Rightarrow> bool) \<Rightarrow> (string \<Rightarrow> bool) \<Rightarrow> custom_paths \<Rightarrow> sanity_error + unit" where
  "verify_installed file_exists dir_exists paths =
     (let missing = filter (\<lambda>p. \<not> file_exists p) (files paths)
                    @ filter (\<lambda>p. \<not> dir_exists p) (dirs paths)
      in if missing = [] then Inr () else Inl (MissingArtifactError missing))"

definition blender_sanity_check_step ::
  "(string \<Rightarrow> bool) \<Rightarrow> (string \<Rightarrow> bool) \<Rightarrow> sanity_error + unit" where
  "blender_sanity_check_step file_exists dir_exists =
     verify_installed file_exists dir_exists blender_custom_paths"


section \<open>PETSc\<close>

subsection \<open>The easyblock and what it reads\<close>

text \<open>
  One record holds what \<open>self\<close> carries through the steps: the settings of the
  easyconfig (\<open>self.cfg\<close>), the attributes \<open>petsc_arch\<close>, \<open>petsc_subdir\<close> and
  \<open>build_in_installdir\<close>, the toolchain's answers, the names of the dependencies and of
  the build dependencies, the process environment, which \<open>env.setvar\<close> writes, and
  the messages written to the log at error level by a call that returns.
  \<open>cfg['parallel']\<close> is a number or \<open>None\<close>.
\<close>

record petsc =
  name :: string
  version :: string
  sourceinstall :: bool
  shared_libs :: bool
  with_papi :: bool
  papi_inc :: string
  papi_lib :: string
  parallel :: "nat option"
  configopts :: string
  buildopts :: string
  preconfigopts :: string
  start_dir :: string
  installdir :: string
  petsc_arch :: string
  petsc_subdir :: string
  build_in_installdir :: bool
  comp_family :: string
  usempi :: bool
  debug :: bool
  pic :: bool
  dependencies :: "string list"
  builddependencies :: "string list"
  environ :: "string \<rightharpoonup> string"
  error_log :: "string list"

text \<open>
  What lies outside the easyblock: the roots of the installed software
  (\<open>get_software_root\<close>, \<open>None\<close> when the software is not loaded), the files that exist
  (\<open>os.path.isfile\<close>), the command runner of the framework (\<open>run_cmd\<close>, which raises or
  returns the output and the exit code), the configure step of the parent class
  ConfigureMake (it raises or returns the output of the configure command), the
  extension of shared libraries, and the search of the PETSC_ARCH line in the output of
  configure (group 1 of the match, or \<open>None\<close>). None of them is part of the sources.
\<close>

record world =
  get_software_root :: "string \<rightharpoonup> string"
  isfile :: "string \<Rightarrow> bool"
  run_cmd :: "string \<Rightarrow> EasyBuildError + (string \<times> int)"
  super_configure_step :: "petsc \<Rightarrow> EasyBuildError + string"
  get_shared_lib_ext :: string
  petsc_arch_search :: "string \<rightharpoonup> string"

text \<open>A step either returns the easyblock as it leaves it, or raises: then the error
  comes with the easyblock as it was when the error was raised, since the settings are
  changed in place.\<close>

type_synonym outcome = "(EasyBuildError \<times> petsc) + petsc"

text \<open>Modelled from the spec: \<open>self.log.error\<close> of the host framework is not part of the
  sources, and the spec reads its calls in two ways. Section 4.1 has the missing
  BLAS/LAPACK value and the error marker in the output of configure "fatal", and
  section 7 has every error of its taxonomy "fatal to the current package's build": the
  adapter "reports once ... and stops". For these calls logging the error raises an
  \<open>EasyBuildError\<close> with the message. (\<open>self.log.info\<close> only writes to the log and has
  no counterpart here.)\<close>

definition log_error :: "string \<Rightarrow> petsc \<Rightarrow> outcome" where
  "log_error msg self = Inl (EasyBuildError msg [], self)"

text \<open>Modelled from the spec: the call of \<open>self.log.error\<close> in the PAPI block. Section 9,
  the only text about this call, has the source treat the failed check "as a hard error
  via logging" and continue "executing other dependency logic after logging"; the source
  has neither a raise nor a return after the call. Here the message goes to the error
  log and the step goes on.\<close>

definition log_error_continue :: "string \<Rightarrow> petsc \<Rightarrow> outcome" where
  "log_error_continue msg self = Inr (self\<lparr>error_log := error_log self @ [msg]\<rparr>)"

text \<open>\<open>self.cfg.update('configopts', v)\<close>, once and for a list of values in turn.\<close>

definition update_configopts :: "petsc \<Rightarrow> string \<Rightarrow> petsc" where
  "update_configopts self v = self\<lparr>configopts := cfg_update (configopts self) v\<rparr>"

definition update_buildopts :: "petsc \<Rightarrow> string \<Rightarrow> petsc" where
  "update_buildopts self v = self\<lparr>buildopts := cfg_update (buildopts self) v\<rparr>"

definition updates :: "petsc \<Rightarrow> string list \<Rightarrow> petsc" where
  "updates self vs = foldl update_configopts self vs"

text \<open>Steps in sequence; the first error ends the sequence.\<close>

fun in_turn :: "(petsc \<Rightarrow> outcome) list \<Rightarrow> petsc \<Rightarrow> outcome" where
  "in_turn [] self = Inr self"
| "in_turn (step # steps) self =
     (case step self of Inl e \<Rightarrow> Inl e | Inr self' \<Rightarrow> in_turn steps self')"

text \<open>\<open>"%s"\<close> inside a format: the value between double quotes.\<close>

definition quoted :: "string \<Rightarrow> string" where
  "quoted v = [CHR 0x22] @ v @ [CHR 0x22]"

text \<open>\<open>'%s' % self.cfg['parallel']\<close>.\<close>

definition fmt_parallel :: "nat option \<Rightarrow> string" where
  "fmt_parallel v = (case v of None \<Rightarrow> ''None'' | Some n \<Rightarrow> str_nat n)"

definition toolchain_GCC :: string where
  "toolchain_GCC = ''GCC''"

subsection \<open>configure_step for version 3 and later: the options\<close>

definition petsc_compilers :: "petsc \<Rightarrow> outcome" where
  "petsc_compilers self =
     Inr (updates self
       [''--with-cc='' @ quoted (fmt_s (environ self ''CC'')),
        ''--with-cxx='' @ quoted (fmt_s (environ self ''CXX'')) @ '' --with-c++-support'',
        ''--with-fc='' @ quoted (fmt_s (environ self ''F90''))])"

definition petsc_compiler_flags :: "petsc \<Rightarrow> outcome" where
  "petsc_compiler_flags self =
     (if version_ge (version self) ''3.5''
      then Inr (updates self
        [''--CFLAGS='' @ quoted (fmt_s (environ self ''CFLAGS'')),
         ''--CXXFLAGS='' @ quoted (fmt_s (environ self ''CXXFLAGS'')),
         ''--FFLAGS='' @ quoted (fmt_s (environ self ''F90FLAGS''))])
      else Inr (updates self
        [''--with-cflags='' @ quoted (fmt_s (environ self ''CFLAGS'')),
         ''--with-cxxflags='' @ quoted (fmt_s (environ self ''CXXFLAGS'')),
         ''--with-fcflags='' @ quoted (fmt_s (environ self ''F90FLAGS''))]))"

definition petsc_toolchain_opts :: "petsc \<Rightarrow> outcome" where
  "petsc_toolchain_opts self =
     Inr (updates self
       ((if \<not> comp_family self = toolchain_GCC then [''--with-gnu-compilers=0''] else [])
        @ (if usempi self then [''--with-mpi=1''] else [])))"

definition petsc_build_options :: "petsc \<Rightarrow> outcome" where
  "petsc_build_options self =
     Inr (updates self
       [''--with-build-step-np='' @ fmt_parallel (parallel self),
        ''--with-shared-libraries='' @ fmt_d_bool (shared_libs self),
        ''--with-debugging='' @ fmt_d_bool (debug self),
        ''--with-pic='' @ fmt_d_bool (pic self),
        ''--with-x=0 --with-windows-graphics=0''])"

text \<open>PAPI support.\<close>

definition papi_inc_file :: "petsc \<Rightarrow> string" where
  "papi_inc_file self = os_path_join (papi_inc self) [''papi.h'']"

definition papi_error_msg :: "petsc \<Rightarrow> string" where
  "papi_error_msg self =
     ''PAPI header ('' @ papi_inc_file self @ '') and/or lib ('' @ papi_lib self
       @ '') not found, '' @ ''can not enable PAPI support?''"

definition petsc_papi :: "world \<Rightarrow> petsc \<Rightarrow> outcome" where
  "petsc_papi w self =
     (if with_papi self
      then (if isfile w (papi_inc_file self) \<and> isfile w (papi_lib self)
            then Inr (updates self
                   [''--with-papi=1'',
                    ''--with-papi-include='' @ papi_inc self,
                    ''--with-papi-lib='' @ papi_lib self])
            else log_error_continue (papi_error_msg self) self)
      else Inr self)"

text \<open>Python extensions.\<close>

definition petsc_python :: "world \<Rightarrow> petsc \<Rightarrow> outcome" where
  "petsc_python w self =
     (if truthy (get_software_root w ''Python'')
      then Inr (updates self
             ([''--with-numpy=1''] @ (if shared_libs self then [''--with-mpi4py=1''] else [])))
      else Inr self)"

text \<open>
  BLACS, FFTW, ScaLAPACK: a dependency described by the three environment variables
  \<open>inc_var\<close>, \<open>libdir_var\<close> and \<open>libs_var\<close>. The source has this block once for FFTW and
  once for ScaLAPACK (version 3.5 and later) and once in the loop over the three names
  (before 3.5); the three copies differ in the names only. When a variable is missing
  the source writes an info line to the log and goes on.
\<close>

definition env_triple_opts :: "petsc \<Rightarrow> string \<Rightarrow> string \<Rightarrow> string \<Rightarrow> string \<Rightarrow> string list" where
  "env_triple_opts self inc_var libdir_var libs_var with_arg =
     (let inc = environ self inc_var;
          libdir = environ self libdir_var;
          libs = environ self libs_var
      in if truthy inc \<and> truthy libdir \<and> truthy libs
         then [with_arg @ ''=1'',
               with_arg @ ''-include='' @ fmt_s inc,
               with_arg @ ''-lib=['' @ fmt_s libdir @ ''/'' @ fmt_s libs @ '']'']
         else [])"

definition env_dep_opts :: "petsc \<Rightarrow> string \<Rightarrow> string list" where
  "env_dep_opts self dep =
     env_triple_opts self (str_upper dep @ ''_INC_DIR'') (str_upper dep @ ''_LIB_DIR'')
       (str_upper dep @ ''_STATIC_LIBS'') (''--with-'' @ str_lower dep)"

definition petsc_blacs_fftw_scalapack :: "petsc \<Rightarrow> outcome" where
  "petsc_blacs_fftw_scalapack self =
     (if version_ge (version self) ''3.5''
      then Inr (updates
             (updates self
               (env_triple_opts self ''FFTW_INC_DIR'' ''FFTW_LIB_DIR'' ''FFTW_STATIC_LIBS''
                  ''--with-fftw''))
             (env_triple_opts self ''SCALAPACK_INC_DIR'' ''SCALAPACK_LIB_DIR''
                ''SCALAPACK_STATIC_LIBS'' ''--with-scalapack''))
      else Inr (foldl (\<lambda>self' dep. updates self' (env_dep_opts self' dep)) self
                  [''BLACS'', ''FFTW'', ''ScaLAPACK'']))"

text \<open>BLAS, LAPACK libraries.\<close>

definition petsc_blas_lapack :: "petsc \<Rightarrow> outcome" where
  "petsc_blas_lapack self =
     (let bl_libdir = environ self ''BLAS_LAPACK_LIB_DIR'';
          bl_libs = environ self ''BLAS_LAPACK_STATIC_LIBS''
      in if truthy bl_libdir \<and> truthy bl_libs
         then Inr (update_configopts self
                (''--with-blas-lapack-lib=['' @ fmt_s bl_libdir @ ''/'' @ fmt_s bl_libs @ '']''))
         else log_error ''One or more environment variables for BLAS/LAPACK not defined?'' self)"

text \<open>
  Additional dependencies. \<open>depfilter\<close> is the list of the build dependencies, which are
  dictionaries, followed by ten names; a name is never equal to a dictionary, so the test
  \<open>dep['name'] in depfilter\<close> looks the name up among the ten names.
\<close>

datatype pyobj = PyDict string | PyStr string

definition depfilter :: "petsc \<Rightarrow> pyobj list" where
  "depfilter self =
     map PyDict (builddependencies self)
     @ map PyStr [''BLACS'', ''BLAS'', ''FFTW'', ''LAPACK'', ''numpy'', ''CMake'',
                  ''mpi4py'', ''papi'', ''ScaLAPACK'', ''SuiteSparse'']"

definition deps :: "petsc \<Rightarrow> string list" where
  "deps self = filter (\<lambda>n. \<not> PyStr n \<in> set (depfilter self)) (dependencies self)"

text \<open>The name of the option of one additional dependency; \<open>dep\<close> is \<open>dep[1]\<close>, which is
  the name.\<close>

definition withdep :: "string \<Rightarrow> string \<Rightarrow> string" where
  "withdep ver dep =
     (if version_ge ver ''3.5'' \<and> dep = ''SCOTCH''
      then ''--with-pt'' @ str_lower dep
      else ''--with-'' @ str_lower dep)"

definition dep_opts :: "world \<Rightarrow> string \<Rightarrow> string \<Rightarrow> string list" where
  "dep_opts w ver dep =
     (let deproot = get_software_root w dep
      in if truthy deproot
         then [withdep ver dep @ ''=1 '' @ withdep ver dep @ ''-dir='' @ fmt_s deproot]
         else [])"

definition petsc_additional_deps :: "world \<Rightarrow> petsc \<Rightarrow> outcome" where
  "petsc_additional_deps w self =
     Inr (foldl (\<lambda>self' dep. updates self' (dep_opts w (version self) dep)) self (deps self))"

text \<open>SuiteSparse.\<close>

definition ss_libs :: "string list" where
  "ss_libs = [''UMFPACK'', ''KLU'', ''CHOLMOD'', ''BTF'', ''CCOLAMD'', ''COLAMD'', ''CAMD'', ''AMD'']"

definition suitesparse_opts :: "string \<Rightarrow> string \<Rightarrow> string" where
  "suitesparse_opts ver suitesparse =
     (if version_ge ver ''3.5''
      then (let suitesparse_libs =
                  map (\<lambda>l. os_path_join suitesparse [l, ''Lib'', ''lib'' @ str_lower l @ ''.a'']) ss_libs
                  @ [os_path_join suitesparse [''SuiteSparse_config'', ''libsuitesparseconfig.a'']];
                suitesparse_inc =
                  map (\<lambda>l. os_path_join suitesparse [l, ''Include'']) ss_libs
                  @ [os_path_join suitesparse [''SuiteSparse_config'']]
            in str_join '' '' (map (\<lambda>x. ''--with-suitesparse'' @ x)
                 [''=1'',
                  ''-include=['' @ str_join '','' suitesparse_inc @ '']'',
                  ''-lib=['' @ str_join '','' suitesparse_libs @ '']'']))
      else (let umfpack_libs =
                  map (\<lambda>l. os_path_join suitesparse [l, ''Lib'', ''lib'' @ str_lower l @ ''.a''])
                    [''UMFPACK'', ''CHOLMOD'', ''COLAMD'', ''AMD'']
            in str_join '' '' (map (\<lambda>x. ''--with-umfpack'' @ x)
                 [''=1'',
                  ''-include='' @ os_path_join suitesparse [''UMFPACK'', ''Include''],
                  ''-lib=['' @ str_join '','' umfpack_libs @ '']''])))"

definition petsc_suitesparse :: "world \<Rightarrow> petsc \<Rightarrow> outcome" where
  "petsc_suitesparse w self =
     (let suitesparse = get_software_root w ''SuiteSparse''
      in if truthy suitesparse
         then Inr (update_configopts self (suitesparse_opts (version self) (fmt_s suitesparse)))
         else Inr self)"

text \<open>PETSC_DIR for configure (the environment) and for the build step.\<close>

definition petsc_set_petsc_dir :: "petsc \<Rightarrow> outcome" where
  "petsc_set_petsc_dir self =
     Inr (update_buildopts (self\<lparr>environ := (environ self)(''PETSC_DIR'' \<mapsto> start_dir self)\<rparr>)
            (''PETSC_DIR='' @ start_dir self))"

text \<open>All of the above, in the order of the source.\<close>

definition petsc_options :: "world \<Rightarrow> petsc \<Rightarrow> outcome" where
  "petsc_options w self =
     in_turn
       [petsc_compilers, petsc_compiler_flags, petsc_toolchain_opts, petsc_build_options,
        petsc_papi w, petsc_python w, petsc_blacs_fftw_scalapack, petsc_blas_lapack,
        petsc_additional_deps w, petsc_suitesparse w, petsc_set_petsc_dir] self"

subsection \<open>configure_step for version 3 and later: running configure\<close>

definition configure_cmd :: "petsc \<Rightarrow> string" where
  "configure_cmd self = preconfigopts self @ '' ./configure '' @ configopts self"

definition petsc_configure_output :: "world \<Rightarrow> petsc \<Rightarrow> EasyBuildError + string" where
  "petsc_configure_output w self =
     (if sourceinstall self
      then (case run_cmd w (configure_cmd self) of
              Inl e \<Rightarrow> Inl e
            | Inr (out, ec) \<Rightarrow> Inr out)
      else super_configure_step w self)"

text \<open>What follows the run: the search for the error marker, the PETSC_ARCH setting of a
  source installation, and the name of the subdirectory.\<close>

definition petsc_check_output :: "string \<Rightarrow> petsc \<Rightarrow> outcome" where
  "petsc_check_output out self =
     (if sublist ''ERROR'' out
      then log_error ''Error(s) detected in configure output!'' self
      else Inr self)"

definition petsc_find_arch :: "world \<Rightarrow> string \<Rightarrow> petsc \<Rightarrow> outcome" where
  "petsc_find_arch w out self =
     (if sourceinstall self
      then (case petsc_arch_search w out of
              Some arch \<Rightarrow>
                Inr (update_buildopts (self\<lparr>petsc_arch := arch\<rparr>) (''PETSC_ARCH='' @ arch))
            | None \<Rightarrow> log_error ''Failed to determine PETSC_ARCH setting.'' self)
      else Inr self)"

definition petsc_set_subdir :: "petsc \<Rightarrow> outcome" where
  "petsc_set_subdir self =
     Inr (self\<lparr>petsc_subdir := str_lower (name self) @ ''-'' @ version self\<rparr>)"

definition petsc_configure_new :: "world \<Rightarrow> petsc \<Rightarrow> outcome" where
  "petsc_configure_new w self =
     (case petsc_options w self of
        Inl e \<Rightarrow> Inl e
      | Inr self1 \<Rightarrow>
          (case petsc_configure_output w self1 of
             Inl e \<Rightarrow> Inl (e, self1)
           | Inr out \<Rightarrow>
               in_turn [petsc_check_output out, petsc_find_arch w out, petsc_set_subdir] self1))"

subsection \<open>configure_step before version 3\<close>

definition petsc_configure_old :: "world \<Rightarrow> petsc \<Rightarrow> outcome" where
  "petsc_configure_old w self =
     (let self1 = updates self [''--prefix='' @ installdir self, ''--with-shared=1''];
          self2 = foldl (\<lambda>self' dep.
                    (let deproot = get_software_root w dep
                     in if truthy deproot
                        then update_configopts self'
                               ((''--with-'' @ str_lower dep) @ ''=1 '' @ (''--with-'' @ str_lower dep)
                                  @ ''-dir='' @ fmt_s deproot)
                        else self')) self1 [''SCOTCH'']
      in case run_cmd w (''./config/configure.py '' @ configopts self2) of
           Inl e \<Rightarrow> Inl (e, self2)
         | Inr r \<Rightarrow> Inr self2)"

subsection \<open>configure_step\<close>

definition petsc_configure_step :: "world \<Rightarrow> petsc \<Rightarrow> outcome" where
  "petsc_configure_step w self =
     (case (if version_ge (version self) ''3''
            then petsc_configure_new w self
            else petsc_configure_old w self) of
        Inl e \<Rightarrow> Inl e
      | Inr self' \<Rightarrow>
          Inr (if version_ge (version self') ''3.5'' then self'\<lparr>parallel := None\<rparr> else self'))"

subsection \<open>The other steps\<close>

text \<open>make_builddir, install_step and sanity_check_step. Where a step hands over to the
  parent class, the parent's step is a parameter that raises or returns; the symbolic
  links of an old version are made by \<open>symlink\<close>, which returns the error it raises, if
  any.\<close>

definition petsc_make_builddir :: "(petsc \<Rightarrow> EasyBuildError + unit) \<Rightarrow> petsc \<Rightarrow> outcome" where
  "petsc_make_builddir super_make_builddir self =
     (let self' = (if sourceinstall self then self\<lparr>build_in_installdir := True\<rparr> else self)
      in case super_make_builddir self' of Inl e \<Rightarrow> Inl (e, self') | Inr u \<Rightarrow> Inr self')"

fun petsc_symlinks :: "(string \<Rightarrow> string \<Rightarrow> string option) \<Rightarrow> petsc \<Rightarrow> string list \<Rightarrow> outcome" where
  "petsc_symlinks symlink self [] = Inr self"
| "petsc_symlinks symlink self (f # fs) =
     (let includedir = os_path_join (installdir self) [''include''];
          bmakedir = os_path_join (installdir self) [''bmake'', ''linux-gnu-c-opt'']
      in case symlink (os_path_join bmakedir [f]) (os_path_join includedir [f]) of
           Some err \<Rightarrow>
             log_error (''Something went wrong during symlink creation of file '' @ f @ '': '' @ err)
               self
         | None \<Rightarrow> petsc_symlinks symlink self fs)"

definition petsc_install_step ::
  "(petsc \<Rightarrow> EasyBuildError + unit) \<Rightarrow> (string \<Rightarrow> string \<Rightarrow> string option) \<Rightarrow> petsc \<Rightarrow> outcome" where
  "petsc_install_step super_install_step symlink self =
     (if version_ge (version self) ''3''
      then (if \<not> sourceinstall self
            then (case super_install_step self of Inl e \<Rightarrow> Inl (e, self) | Inr u \<Rightarrow> Inr self)
            else Inr self)
      else petsc_symlinks symlink self
             [''petscconf.h'', ''petscconfiginfo.h'', ''petscfix.h'', ''petscmachineinfo.h''])"

definition petsc_custom_paths :: "world \<Rightarrow> petsc \<Rightarrow> custom_paths" where
  "petsc_custom_paths w self =
     (let prefix1 = (if sourceinstall self then petsc_subdir self else []);
          prefix2 = (if sourceinstall self
                     then os_path_join (petsc_subdir self) [petsc_arch self] else []);
          libext = (if shared_libs self then get_shared_lib_ext w else ''a'')
      in \<lparr>files = [os_path_join prefix2 [''lib'', ''libpetsc.'' @ libext]],
          dirs = [os_path_join prefix1 [''bin''], os_path_join prefix2 [''conf''],
                  os_path_join prefix1 [''include''], os_path_join prefix2 [''include'']]\<rparr>)"

definition petsc_sanity_check_step ::
  "(string \<Rightarrow> bool) \<Rightarrow> (string \<Rightarrow> bool) \<Rightarrow> world \<Rightarrow> petsc \<Rightarrow> sanity_error + petsc" where
  "petsc_sanity_check_step file_exists dir_exists w self =
     (case verify_installed file_exists dir_exists (petsc_custom_paths w self) of
        Inl e \<Rightarrow> Inl e
      | Inr u \<Rightarrow> Inr self)"

section \<open>Example configurations\<close>

text \<open>The settings of MVAPICH2 at the defaults of extra_options, for a version and a
  value of \<open>configopts\<close>.\<close>

definition mvapich2_defaults :: "string \<Rightarrow> string \<Rightarrow> mvapich2" where
  "mvapich2_defaults ver opts =
     \<lparr>mv_version = ver, mv_withchkpt = False, mv_withmpe = False, mv_withhwloc = False,
      mv_withlimic2 = False, mv_debug = False, mv_rdma_type = ''gen2'', mv_blcr_path = None,
      mv_blcr_inc_path = None, mv_blcr_lib_path = None, mv_configopts = opts\<rparr>"

text \<open>A machine with Python and SCOTCH loaded and no PAPI files, on which configure
  prints \<open>out\<close> and exits with code 0.\<close>

definition example_world :: "string \<Rightarrow> world" where
  "example_world out =
     \<lparr>get_software_root = [''Python'' \<mapsto> ''/opt/python'', ''SCOTCH'' \<mapsto> ''/opt/scotch''],
      isfile = (\<lambda>p. False),
      run_cmd = (\<lambda>cmd. Inr (out, 0)),
      super_configure_step = (\<lambda>self. Inr out),
      get_shared_lib_ext = ''so'',
      petsc_arch_search = (\<lambda>out. Some ''arch-linux2-c-opt'')\<rparr>"

text \<open>A PETSc easyconfig with the defaults of extra_options, but for the version, the
  kind of installation, PAPI support and the environment.\<close>

definition example_petsc :: "string \<Rightarrow> bool \<Rightarrow> bool \<Rightarrow> (string \<rightharpoonup> string) \<Rightarrow> petsc" where
  "example_petsc ver src papi env =
     \<lparr>name = ''PETSc'', version = ver, sourceinstall = src, shared_libs = False,
      with_papi = papi, papi_inc = ''/usr/include'', papi_lib = ''/usr/lib64/libpapi.so'',
      parallel = Some 4, configopts = [], buildopts = [], preconfigopts = [],
      start_dir = ''/build/petsc'', installdir = ''/apps/petsc'', petsc_arch = [],
      petsc_subdir = [], build_in_installdir = False, comp_family = ''GCC'', usempi = True,
      debug = False, pic = True, dependencies = [''SCOTCH'', ''FFTW''],
      builddependencies = [''CMake''], environ = env, error_log = []\<rparr>"

definition blas_env :: "string \<rightharpoonup> string" where
  "blas_env =
     [''BLAS_LAPACK_LIB_DIR'' \<mapsto> ''/opt/blas/lib'', ''BLAS_LAPACK_STATIC_LIBS'' \<mapsto> ''libblas.a'']"

section \<open>Results\<close>

lemma sublist_cfg_update_keep: "sublist x prev \<Longrightarrow> sublist x (cfg_update prev v)"
  unfolding cfg_update_def by (metis sublist_order.order.trans sublist_append_rightI)

lemma sublist_cfg_update_new: "sublist x (cfg_update prev (x @ z))"
  unfolding cfg_update_def sublist_def by (metis append.assoc)

text \<open>C2: when the glob of the pattern has exactly one match, find_glob_pattern returns
  that match; when it has none or several, it fails with an error that carries the
  pattern, the number of matches and the list of matches as the glob returned it.\<close>

theorem find_glob_pattern_unique:
  "(glob p = [m] \<longrightarrow> find_glob_pattern glob p = Inr m) \<and>
   (length (glob p) \<noteq> 1 \<longrightarrow>
      find_glob_pattern glob p =
         Inl (EasyBuildError
                (''Was expecting exactly one match for '' @ [CHR 0x27] @ ''%s'' @ [CHR 0x27] @
                 '', found %d: %s'')
                [ArgStr p, ArgInt (length (glob p)), ArgList (glob p)]))"
  by (simp add: find_glob_pattern_def Let_def)

theorem find_glob_pattern_unique_witness:
  "find_glob_pattern (\<lambda>p. if p = ''a*'' then [''ab''] else if p = ''b*'' then [''b1'', ''b2''] else [])
     ''a*'' = Inr ''ab'' \<and>
   find_glob_pattern (\<lambda>p. if p = ''a*'' then [''ab''] else if p = ''b*'' then [''b1'', ''b2''] else [])
     ''b*'' =
     Inl (EasyBuildError
            (''Was expecting exactly one match for '' @ [CHR 0x27] @ ''%s'' @ [CHR 0x27] @
             '', found %d: %s'')
            [ArgStr ''b*'', ArgInt 2, ArgList [''b1'', ''b2'']])"
  using find_glob_pattern_unique [of "\<lambda>p. if p = ''a*'' then [''ab''] else if p = ''b*'' then [''b1'', ''b2''] else []" "''a*''" "''ab''"]
    find_glob_pattern_unique [of "\<lambda>p. if p = ''a*'' then [''ab''] else if p = ''b*'' then [''b1'', ''b2''] else []" "''b*''" "''ab''"]
  by simp

subsection \<open>Facts used by several results\<close>

lemma version_facts:
  "\<not> version_ge ''3.4'' ''3.5''" "version_ge ''3.5'' ''3.5''" "version_ge ''3.5.1'' ''3.5''"
  "version_ge ''3.4'' ''3''" "version_ge ''3.5'' ''3''" "version_ge ''3.5.1'' ''3''"
  "\<not> version_ge ''2.0'' ''2.1''" "\<not> version_ge ''2.3.3'' ''3''" "\<not> version_ge ''2.3.3'' ''3.5''"
  by code_simp+

lemma lower_facts:
  "str_lower ''SCOTCH'' = ''scotch''" "str_lower ''PETSc'' = ''petsc''"
  by code_simp+

lemma updates_Nil: "updates self [] = self"
  by (simp add: updates_def)

lemma updates_Cons: "updates self (v # vs) = updates (update_configopts self v) vs"
  by (simp add: updates_def)

subsection \<open>Blender: the defaults are applied once\<close>

lemma apply_default_config_opts_append:
  "apply_default_config_opts (D1 @ D2) S =
     apply_default_config_opts D2 (apply_default_config_opts D1 S)"
proof (induction D1 arbitrary: S)
  case Nil
  show ?case by simp
next
  case (Cons a D1)
  then show ?case by (cases a) simp
qed

lemma apply_default_config_opts_keeps:
  "sublist x S \<Longrightarrow> sublist x (apply_default_config_opts D S)"
proof (induction D arbitrary: S)
  case Nil
  then show ?case by simp
next
  case (Cons a D)
  then show ?case by (cases a) (simp add: sublist_cfg_update_keep)
qed

lemma apply_default_config_opts_present:
  "(\<forall>(k, v) \<in> set D. sublist (blender_opt k) S) \<Longrightarrow> apply_default_config_opts D S = S"
proof (induction D arbitrary: S)
  case Nil
  show ?case by simp
next
  case (Cons a D)
  then show ?case by (cases a) simp
qed

lemma apply_default_config_opts_has:
  "(k, v) \<in> set D \<Longrightarrow> sublist (blender_opt k) (apply_default_config_opts D S)"
proof (induction D arbitrary: S)
  case Nil
  then show ?case by simp
next
  case (Cons a D)
  show ?case
  proof (cases "a = (k, v)")
    case True
    have "sublist (blender_opt k)
            (if \<not> sublist (blender_opt k) S then cfg_update S (blender_opt k @ v) else S)"
      by (simp add: sublist_cfg_update_new)
    then have "sublist (blender_opt k)
       (apply_default_config_opts D
          (if \<not> sublist (blender_opt k) S then cfg_update S (blender_opt k @ v) else S))"
      by (rule apply_default_config_opts_keeps)
    then show ?thesis
      using True by simp
  next
    case False
    obtain k' v' where a: "a = (k', v')" by (cases a)
    from False Cons.prems have "(k, v) \<in> set D" by simp
    then show ?thesis
      unfolding a apply_default_config_opts.simps by (rule Cons.IH)
  qed
qed

text \<open>On an empty option string every default of Blender is appended, in turn.\<close>

lemma blender_defaults_from_empty:
  "apply_default_config_opts default_config_opts [] =
     '' -DWITH_INSTALL_PORTABLE=OFF -DWITH_BUILDINFO=OFF -DWITH_CPU_SSE=OFF'' @
     '' -DCMAKE_C_FLAGS_RELEASE=-DNDEBUG -DCMAKE_CXX_FLAGS_RELEASE=-DNDEBUG'' @
     '' -DWITH_GAMEENGINE=OFF -DWITH_SYSTEM_GLEW=OFF''"
  by code_simp

text \<open>C1, as the code has it: the check before appending is in Blender's loop over its
  default options only. There, a default whose option \<open>-D<key>=\<close> already occurs in the
  option string \<open>S\<close> adds nothing (the result is the one of the loop without that
  default), for every list of defaults and every \<open>S\<close>; and running the loop a second
  time on its own result changes nothing.\<close>

theorem blender_defaults_idempotent:
  "(sublist (blender_opt k) S \<longrightarrow>
      apply_default_config_opts (D1 @ (k, v) # D2) S = apply_default_config_opts (D1 @ D2) S) \<and>
   apply_default_config_opts D (apply_default_config_opts D S) = apply_default_config_opts D S"
proof
  show "sublist (blender_opt k) S \<longrightarrow>
      apply_default_config_opts (D1 @ (k, v) # D2) S = apply_default_config_opts (D1 @ D2) S"
  proof
    assume "sublist (blender_opt k) S"
    then have "sublist (blender_opt k) (apply_default_config_opts D1 S)"
      by (rule apply_default_config_opts_keeps)
    then show "apply_default_config_opts (D1 @ (k, v) # D2) S = apply_default_config_opts (D1 @ D2) S"
      by (simp add: apply_default_config_opts_append)
  qed
  have "\<forall>(k, v) \<in> set D. sublist (blender_opt k) (apply_default_config_opts D S)"
    using apply_default_config_opts_has by blast
  then show "apply_default_config_opts D (apply_default_config_opts D S) = apply_default_config_opts D S"
    by (rule apply_default_config_opts_present)
qed

theorem blender_defaults_idempotent_witness:
  "sublist (blender_opt ''A'') ''-DA=ON'' \<and>
   apply_default_config_opts [(''A'', ''OFF''), (''B'', ''OFF'')] ''-DA=ON''
     = apply_default_config_opts [(''B'', ''OFF'')] ''-DA=ON'' \<and>
   apply_default_config_opts [(''B'', ''OFF'')] ''-DA=ON'' = ''-DA=ON -DB=OFF'' \<and>
   apply_default_config_opts [(''B'', ''OFF'')] ''-DA=ON -DB=OFF'' = ''-DA=ON -DB=OFF''"
  using blender_defaults_idempotent [where k = "''A''" and S = "''-DA=ON''"
      and ?D1.0 = "[]" and v = "''OFF''" and ?D2.0 = "[(''B'', ''OFF'')]"
      and D = "[(''B'', ''OFF'')]"]
  by (simp add: blender_opt_def cfg_update_def sublist_code)

text \<open>C1 as stated fails for MVAPICH2, whose configure step appends without looking at
  the option string: on a string that already holds \<open>--with-rdma=gen2\<close> and
  \<open>--enable-fast\<close> it appends both again.\<close>

theorem mvapich2_repeat_counterexample:
  "mvapich2_configure_step (\<lambda>self. Inr [])
     (mvapich2_defaults ''2.0'' ''--with-rdma=gen2 --enable-fast'') =
   Inr (mvapich2_defaults ''2.0''
     (''--with-rdma=gen2 --enable-fast'' @
      '' --with-rdma=gen2 --with-thread-package=pthreads --enable-fast --enable-shared'' @
      '' --enable-sharedlibs=gcc --enable-f77 --enable-fc --enable-cxx''))"
  by (simp add: mvapich2_configure_step_def mvapich2_defaults_def add_configopts_def cfg_update_def
      truthy_def)

subsection \<open>PETSc: the threshold 3.5\<close>

text \<open>C3: at version 3.4 the compiler flags go into \<open>--with-cflags\<close>, \<open>--with-cxxflags\<close>
  and \<open>--with-fcflags\<close> and SCOTCH is named \<open>--with-scotch\<close>; at 3.5 and at 3.5.1 they go
  into \<open>--CFLAGS\<close>, \<open>--CXXFLAGS\<close> and \<open>--FFLAGS\<close> and SCOTCH is named \<open>--with-ptscotch\<close>.
  For every version the name for SCOTCH is chosen by the comparison with 3.5.\<close>

theorem petsc_version_threshold:
  "petsc_compiler_flags (self\<lparr>version := ''3.4''\<rparr>) =
     Inr (updates (self\<lparr>version := ''3.4''\<rparr>)
       [''--with-cflags='' @ quoted (fmt_s (environ self ''CFLAGS'')),
        ''--with-cxxflags='' @ quoted (fmt_s (environ self ''CXXFLAGS'')),
        ''--with-fcflags='' @ quoted (fmt_s (environ self ''F90FLAGS''))]) \<and>
   petsc_compiler_flags (self\<lparr>version := ''3.5''\<rparr>) =
     Inr (updates (self\<lparr>version := ''3.5''\<rparr>)
       [''--CFLAGS='' @ quoted (fmt_s (environ self ''CFLAGS'')),
        ''--CXXFLAGS='' @ quoted (fmt_s (environ self ''CXXFLAGS'')),
        ''--FFLAGS='' @ quoted (fmt_s (environ self ''F90FLAGS''))]) \<and>
   petsc_compiler_flags (self\<lparr>version := ''3.5.1''\<rparr>) =
     Inr (updates (self\<lparr>version := ''3.5.1''\<rparr>)
       [''--CFLAGS='' @ quoted (fmt_s (environ self ''CFLAGS'')),
        ''--CXXFLAGS='' @ quoted (fmt_s (environ self ''CXXFLAGS'')),
        ''--FFLAGS='' @ quoted (fmt_s (environ self ''F90FLAGS''))]) \<and>
   withdep ''3.4'' ''SCOTCH'' = ''--with-scotch'' \<and>
   withdep ''3.5'' ''SCOTCH'' = ''--with-ptscotch'' \<and>
   withdep ''3.5.1'' ''SCOTCH'' = ''--with-ptscotch'' \<and>
   withdep ver ''SCOTCH'' = (if version_ge ver ''3.5'' then ''--with-ptscotch'' else ''--with-scotch'')"
  by (simp add: petsc_compiler_flags_def withdep_def version_facts lower_facts)

subsection \<open>MVAPICH2: the baseline options\<close>

text \<open>C9: for version 2.0 with every boolean option off, \<open>rdma_type\<close> at \<open>gen2\<close> and no
  BLCR path, the old library names are in use, the options added are the eight baseline
  options in this order and no other, they are appended to \<open>configopts\<close> joined by
  spaces, and when the configure command of the parent class returns an output without
  the error marker the step succeeds with that configuration.\<close>

theorem mvapich2_baseline:
  "\<not> use_new_libnames (mvapich2_defaults ''2.0'' S) \<and>
   add_configopts (mvapich2_defaults ''2.0'' S) =
     [''--with-rdma=gen2'', ''--with-thread-package=pthreads'', ''--enable-fast'',
      ''--enable-shared'', ''--enable-sharedlibs=gcc'', ''--enable-f77'', ''--enable-fc'',
      ''--enable-cxx''] \<and>
   (super_configure (mvapich2_defaults ''2.0''
        (cfg_update S (''--with-rdma=gen2 --with-thread-package=pthreads --enable-fast'' @
           '' --enable-shared --enable-sharedlibs=gcc --enable-f77 --enable-fc --enable-cxx'')))
      = Inr out \<and> \<not> sublist ''ERROR'' out \<longrightarrow>
    mvapich2_configure_step super_configure (mvapich2_defaults ''2.0'' S) =
      Inr (mvapich2_defaults ''2.0''
        (cfg_update S (''--with-rdma=gen2 --with-thread-package=pthreads --enable-fast'' @
           '' --enable-shared --enable-sharedlibs=gcc --enable-f77 --enable-fc --enable-cxx''))))"
  by (simp add: mvapich2_configure_step_def mvapich2_defaults_def add_configopts_def
      use_new_libnames_def version_facts truthy_def)

theorem mvapich2_baseline_witness:
  "mvapich2_configure_step (\<lambda>self. Inr ''configure: creating Makefile'')
     (mvapich2_defaults ''2.0'' ''--with-device=ch3:mrail'') =
   Inr (mvapich2_defaults ''2.0''
     (''--with-device=ch3:mrail --with-rdma=gen2 --with-thread-package=pthreads --enable-fast'' @
      '' --enable-shared --enable-sharedlibs=gcc --enable-f77 --enable-fc --enable-cxx''))"
  using mvapich2_baseline [of "''--with-device=ch3:mrail''" "\<lambda>self. Inr ''configure: creating Makefile''"
      "''configure: creating Makefile''"]
  by (simp add: cfg_update_def sublist_code)

subsection \<open>PETSc: steps in sequence\<close>

lemma in_turn_append:
  "in_turn (fs @ gs) self =
     (case in_turn fs self of Inl e \<Rightarrow> Inl e | Inr self' \<Rightarrow> in_turn gs self')"
  by (induction fs arbitrary: self) (auto split: sum.splits)

lemma in_turn_rel:
  assumes refl: "\<And>s. Q s s"
    and trans: "\<And>a b c. Q a b \<Longrightarrow> Q b c \<Longrightarrow> Q a c"
    and step: "\<And>f s s'. f \<in> set fs \<Longrightarrow> f s = Inr s' \<Longrightarrow> Q s s'"
    and run: "in_turn fs self = Inr self'"
  shows "Q self self'"
  using step run
proof (induction fs arbitrary: self)
  case Nil
  then show ?case using refl by simp
next
  case (Cons f fs)
  from Cons.prems(2) obtain self1 where f: "f self = Inr self1" and rest: "in_turn fs self1 = Inr self'"
    by (auto split: sum.splits)
  have "Q self self1"
    using Cons.prems(1) [of f self self1] f by simp
  moreover have "Q self1 self'"
  proof (rule Cons.IH [OF _ rest])
    fix g s s'
    assume "g \<in> set fs" and "g s = Inr s'"
    then show "Q s s'"
      using Cons.prems(1) [of g s s'] by simp
  qed
  ultimately show ?case by (rule trans)
qed

text \<open>The steps that only extend configopts.\<close>

lemma updates_reset: "(updates self vs)\<lparr>configopts := c\<rparr> = self\<lparr>configopts := c\<rparr>"
  by (induction vs arbitrary: self) (simp_all add: updates_def update_configopts_def)

lemma foldl_updates_reset:
  "(foldl (\<lambda>self' dep. updates self' (f self' dep)) self ds)\<lparr>configopts := c\<rparr> =
     self\<lparr>configopts := c\<rparr>"
  by (induction ds arbitrary: self) (simp_all add: updates_reset)

lemma frame_compilers: "petsc_compilers s = Inr s' \<Longrightarrow> s'\<lparr>configopts := configopts s\<rparr> = s"
  by (auto simp: petsc_compilers_def updates_reset)

lemma frame_compiler_flags: "petsc_compiler_flags s = Inr s' \<Longrightarrow> s'\<lparr>configopts := configopts s\<rparr> = s"
  by (auto simp: petsc_compiler_flags_def updates_reset split: if_splits)

lemma frame_toolchain_opts: "petsc_toolchain_opts s = Inr s' \<Longrightarrow> s'\<lparr>configopts := configopts s\<rparr> = s"
  by (auto simp: petsc_toolchain_opts_def updates_reset)

lemma frame_build_options: "petsc_build_options s = Inr s' \<Longrightarrow> s'\<lparr>configopts := configopts s\<rparr> = s"
  by (auto simp: petsc_build_options_def updates_reset)

lemma frame2_of_frame:
  assumes "s'\<lparr>configopts := configopts s\<rparr> = s"
  shows "s'\<lparr>configopts := configopts s, error_log := error_log s\<rparr> = s"
proof -
  have e: "error_log s' = error_log s"
    using arg_cong [OF assms, of error_log] by simp
  have "s'\<lparr>configopts := configopts s, error_log := error_log s\<rparr> =
      (s'\<lparr>configopts := configopts s\<rparr>)
        \<lparr>error_log := error_log (s'\<lparr>configopts := configopts s\<rparr>)\<rparr>"
    by (simp add: e)
  also have "\<dots> = s'\<lparr>configopts := configopts s\<rparr>"
    by simp
  also have "\<dots> = s"
    by (rule assms)
  finally show ?thesis .
qed

lemma frame_papi:
  "petsc_papi w s = Inr s' \<Longrightarrow> s'\<lparr>configopts := configopts s, error_log := error_log s\<rparr> = s"
  by (auto simp: petsc_papi_def log_error_continue_def updates_reset split: if_splits)

lemma frame_python: "petsc_python w s = Inr s' \<Longrightarrow> s'\<lparr>configopts := configopts s\<rparr> = s"
  by (auto simp: petsc_python_def updates_reset split: if_splits)

lemma frame_blacs: "petsc_blacs_fftw_scalapack s = Inr s' \<Longrightarrow> s'\<lparr>configopts := configopts s\<rparr> = s"
  by (auto simp: petsc_blacs_fftw_scalapack_def updates_reset foldl_updates_reset simp del: foldl.simps split: if_splits)

lemmas frame_first4 = frame_compilers frame_compiler_flags frame_toolchain_opts frame_build_options


lemma frame2_trans:
  assumes ab: "b\<lparr>configopts := configopts a, error_log := error_log a\<rparr> = a"
    and bc: "c\<lparr>configopts := configopts b, error_log := error_log b\<rparr> = b"
  shows "c\<lparr>configopts := configopts a, error_log := error_log a\<rparr> = a"
proof -
  have "c\<lparr>configopts := configopts a, error_log := error_log a\<rparr> =
      (c\<lparr>configopts := configopts b, error_log := error_log b\<rparr>)
        \<lparr>configopts := configopts a, error_log := error_log a\<rparr>"
    by simp
  also have "\<dots> = a" by (simp only: bc ab)
  finally show ?thesis .
qed

lemma first4_ok:
  "\<exists>self4. in_turn [petsc_compilers, petsc_compiler_flags, petsc_toolchain_opts, petsc_build_options] self
      = Inr self4"
  by (simp add: petsc_compilers_def petsc_compiler_flags_def petsc_toolchain_opts_def
      petsc_build_options_def)



lemma papi_fields:
  assumes "s'\<lparr>configopts := configopts s, error_log := error_log s\<rparr> = s"
  shows "with_papi s' = with_papi s" "papi_inc_file s' = papi_inc_file s" "papi_lib s' = papi_lib s"
    "papi_error_msg s' = papi_error_msg s" "environ s' = environ s" "version s' = version s"
proof -
  have "with_papi (s'\<lparr>configopts := configopts s, error_log := error_log s\<rparr>) = with_papi s"
    "papi_inc (s'\<lparr>configopts := configopts s, error_log := error_log s\<rparr>) = papi_inc s"
    "papi_lib (s'\<lparr>configopts := configopts s, error_log := error_log s\<rparr>) = papi_lib s"
    "environ (s'\<lparr>configopts := configopts s, error_log := error_log s\<rparr>) = environ s"
    "version (s'\<lparr>configopts := configopts s, error_log := error_log s\<rparr>) = version s"
    by (simp_all only: assms)
  then show "with_papi s' = with_papi s" "papi_inc_file s' = papi_inc_file s" "papi_lib s' = papi_lib s"
    "papi_error_msg s' = papi_error_msg s" "environ s' = environ s" "version s' = version s"
    by (simp_all add: papi_inc_file_def papi_error_msg_def)
qed

lemma frame_blas: "petsc_blas_lapack s = Inr s' \<Longrightarrow> s'\<lparr>configopts := configopts s\<rparr> = s"
  by (auto simp: petsc_blas_lapack_def log_error_def update_configopts_def Let_def split: if_splits)

lemma frame_additional_deps: "petsc_additional_deps w s = Inr s' \<Longrightarrow> s'\<lparr>configopts := configopts s\<rparr> = s"
  by (auto simp: petsc_additional_deps_def foldl_updates_reset)

lemma frame_suitesparse: "petsc_suitesparse w s = Inr s' \<Longrightarrow> s'\<lparr>configopts := configopts s\<rparr> = s"
  by (auto simp: petsc_suitesparse_def update_configopts_def Let_def split: if_splits)

lemma first7_frame:
  assumes "in_turn [petsc_compilers, petsc_compiler_flags, petsc_toolchain_opts, petsc_build_options,
      petsc_papi w, petsc_python w, petsc_blacs_fftw_scalapack] self = Inr self7"
  shows "self7\<lparr>configopts := configopts self, error_log := error_log self\<rparr> = self"
proof (rule in_turn_rel [where Q = "\<lambda>s s'. s'\<lparr>configopts := configopts s, error_log := error_log s\<rparr> = s",
      OF _ _ _ assms])
  show "\<And>s. s\<lparr>configopts := configopts s, error_log := error_log s\<rparr> = s" by simp
  show "\<And>a b c. b\<lparr>configopts := configopts a, error_log := error_log a\<rparr> = a \<Longrightarrow>
     c\<lparr>configopts := configopts b, error_log := error_log b\<rparr> = b \<Longrightarrow>
     c\<lparr>configopts := configopts a, error_log := error_log a\<rparr> = a" by (rule frame2_trans)
  show "\<And>f s s'. f \<in> set [petsc_compilers, petsc_compiler_flags, petsc_toolchain_opts,
      petsc_build_options, petsc_papi w, petsc_python w, petsc_blacs_fftw_scalapack]
     \<Longrightarrow> f s = Inr s' \<Longrightarrow> s'\<lparr>configopts := configopts s, error_log := error_log s\<rparr> = s"
    using frame_first4 [THEN frame2_of_frame] frame_papi frame_python [THEN frame2_of_frame]
      frame_blacs [THEN frame2_of_frame] by auto
qed

lemma options_split7:
  "petsc_options w self =
     (case in_turn [petsc_compilers, petsc_compiler_flags, petsc_toolchain_opts, petsc_build_options,
             petsc_papi w, petsc_python w, petsc_blacs_fftw_scalapack] self of
        Inl e \<Rightarrow> Inl e
      | Inr self7 \<Rightarrow>
          in_turn [petsc_blas_lapack, petsc_additional_deps w, petsc_suitesparse w,
            petsc_set_petsc_dir] self7)"
  unfolding petsc_options_def
  using in_turn_append [of "[petsc_compilers, petsc_compiler_flags, petsc_toolchain_opts,
      petsc_build_options, petsc_papi w, petsc_python w, petsc_blacs_fftw_scalapack]"
      "[petsc_blas_lapack, petsc_additional_deps w, petsc_suitesparse w, petsc_set_petsc_dir]" self]
  by simp

lemma python_ok: "\<exists>s'. petsc_python w s = Inr s'"
  by (simp add: petsc_python_def)

lemma blacs_ok: "\<exists>s'. petsc_blacs_fftw_scalapack s = Inr s'"
  by (simp add: petsc_blacs_fftw_scalapack_def)

lemma papi_ok: "\<exists>s'. petsc_papi w s = Inr s'"
  by (simp add: petsc_papi_def log_error_continue_def)

lemma first7_ok:
  "\<exists>self7. in_turn [petsc_compilers, petsc_compiler_flags, petsc_toolchain_opts,
      petsc_build_options, petsc_papi w, petsc_python w, petsc_blacs_fftw_scalapack] self = Inr self7"
proof -
  obtain self4 where r:
    "in_turn [petsc_compilers, petsc_compiler_flags, petsc_toolchain_opts, petsc_build_options] self
      = Inr self4"
    using first4_ok by blast
  obtain self5 where 5: "petsc_papi w self4 = Inr self5"
    using papi_ok by blast
  obtain self6 where 6: "petsc_python w self5 = Inr self6"
    using python_ok by blast
  obtain self7 where 7: "petsc_blacs_fftw_scalapack self6 = Inr self7"
    using blacs_ok by blast
  have "in_turn ([petsc_compilers, petsc_compiler_flags, petsc_toolchain_opts, petsc_build_options]
      @ [petsc_papi w, petsc_python w, petsc_blacs_fftw_scalapack]) self = Inr self7"
    by (simp only: in_turn_append r sum.case) (simp add: 5 6 7)
  then show ?thesis by auto
qed

lemma options_blas_missing:
  assumes "\<not> (truthy (environ self ''BLAS_LAPACK_LIB_DIR'') \<and>
              truthy (environ self ''BLAS_LAPACK_STATIC_LIBS''))"
    and "in_turn [petsc_compilers, petsc_compiler_flags, petsc_toolchain_opts,
      petsc_build_options, petsc_papi w, petsc_python w, petsc_blacs_fftw_scalapack] self = Inr self7"
  shows "petsc_options w self =
    Inl (EasyBuildError ''One or more environment variables for BLAS/LAPACK not defined?'' [], self7)"
proof -
  note f = papi_fields [OF first7_frame [OF assms(2)]]
  have b: "petsc_blas_lapack self7 =
      Inl (EasyBuildError ''One or more environment variables for BLAS/LAPACK not defined?'' [], self7)"
    using assms(1) by (simp add: petsc_blas_lapack_def log_error_def f Let_def)
  have "petsc_options w self =
      in_turn [petsc_blas_lapack, petsc_additional_deps w, petsc_suitesparse w,
            petsc_set_petsc_dir] self7"
    by (simp only: options_split7 assms(2) sum.case)
  also have "\<dots> = Inl (EasyBuildError ''One or more environment variables for BLAS/LAPACK not defined?'' [], self7)"
    by (simp add: b)
  finally show ?thesis .
qed


lemma configure_step_options_fail:
  "version_ge (version self) ''3'' \<Longrightarrow> petsc_options w self = Inl x \<Longrightarrow>
     petsc_configure_step w self = Inl x"
  by (simp add: petsc_configure_step_def petsc_configure_new_def)


lemmas petsc_defs =
  petsc_configure_step_def petsc_configure_new_def petsc_configure_old_def
  petsc_options_def petsc_compilers_def petsc_compiler_flags_def petsc_toolchain_opts_def
  petsc_build_options_def petsc_papi_def petsc_python_def petsc_blacs_fftw_scalapack_def
  petsc_blas_lapack_def petsc_additional_deps_def petsc_suitesparse_def petsc_set_petsc_dir_def
  petsc_configure_output_def petsc_check_output_def petsc_find_arch_def petsc_set_subdir_def log_error_continue_def
  updates_def update_configopts_def update_buildopts_def cfg_update_def quoted_def fmt_s_def
  fmt_d_bool_def fmt_parallel_def toolchain_GCC_def truthy_def env_triple_opts_def env_dep_opts_def
  deps_def depfilter_def dep_opts_def withdep_def configure_cmd_def log_error_def papi_inc_file_def
  papi_error_msg_def os_path_join_def path_join2_def

lemmas example_defs = example_world_def example_petsc_def blas_env_def

lemma str_facts: "str_nat 4 = ''4''" "str_upper ''BLACS'' = ''BLACS''" "str_upper ''FFTW'' = ''FFTW''"
  "str_upper ''ScaLAPACK'' = ''SCALAPACK''" "str_lower ''BLACS'' = ''blacs''"
  "str_lower ''FFTW'' = ''fftw''" "str_lower ''ScaLAPACK'' = ''scalapack''"
  by code_simp+


subsection \<open>PETSc: a failed PAPI check\<close>



subsection \<open>PETSc: the error marker in the output of configure\<close>


text \<open>C5: for version 3 and later, once the options are assembled and the configure
  command has returned its output (through \<open>run_cmd\<close> with any exit code, 0 included,
  for a source installation, through the parent class otherwise), an output that
  contains \<open>ERROR\<close> makes the step fail with "Error(s) detected in configure
  output!".\<close>

theorem petsc_error_marker_fatal:
  assumes "version_ge (version self) ''3''"
    and "petsc_options w self = Inr self1"
    and "if sourceinstall self1 then run_cmd w (configure_cmd self1) = Inr (out, ec)
         else super_configure_step w self1 = Inr out"
    and "sublist ''ERROR'' out"
  shows "petsc_configure_output w self1 = Inr out \<and>
     petsc_configure_step w self =
       Inl (EasyBuildError ''Error(s) detected in configure output!'' [], self1)"
proof -
  have o: "petsc_configure_output w self1 = Inr out"
    using assms(3) by (simp add: petsc_configure_output_def split: if_splits)
  have "petsc_configure_new w self =
      Inl (EasyBuildError ''Error(s) detected in configure output!'' [], self1)"
    using assms(4) by (simp add: petsc_configure_new_def assms(2) o petsc_check_output_def log_error_def)
  then show ?thesis
    using assms(1) o by (simp add: petsc_configure_step_def)
qed

lemma example_options_ok:
  "\<exists>self1. petsc_options (example_world out) (example_petsc ''3.5'' src False blas_env) = Inr self1"
  by (simp add: petsc_defs example_defs version_facts lower_facts str_facts)

theorem petsc_error_marker_fatal_witness:
  "petsc_configure_step (example_world ''*** ERROR in configure'') (example_petsc ''3.5'' True False blas_env) =
     Inl (EasyBuildError ''Error(s) detected in configure output!'' [],
          projr (petsc_options (example_world ''*** ERROR in configure'')
            (example_petsc ''3.5'' True False blas_env)))"
proof -
  obtain self1 where 2: "petsc_options (example_world ''*** ERROR in configure'')
      (example_petsc ''3.5'' True False blas_env) = Inr self1"
    using example_options_ok by blast
  have 1: "version_ge (version (example_petsc ''3.5'' True False blas_env)) ''3''"
    by (simp add: example_petsc_def version_facts)
  have 3: "if sourceinstall self1
      then run_cmd (example_world ''*** ERROR in configure'') (configure_cmd self1) =
             Inr (''*** ERROR in configure'', 0)
      else super_configure_step (example_world ''*** ERROR in configure'') self1 =
             Inr ''*** ERROR in configure''"
    by (simp add: example_world_def)
  have 4: "sublist ''ERROR'' ''*** ERROR in configure''"
    by (simp add: sublist_code)
  from petsc_error_marker_fatal [OF 1 2 3 4] show ?thesis
    by (simp add: 2)
qed

subsection \<open>PETSc: required and optional values of the environment\<close>

text \<open>C6: for version 3 and later, when BLAS_LAPACK_LIB_DIR or BLAS_LAPACK_STATIC_LIBS
  is unset or empty, the BLAS/LAPACK block raises "One or more environment variables for
  BLAS/LAPACK not defined?" and leaves the options as they were, so no
  \<open>--with-blas-lapack-lib\<close> is added, and configure_step fails; when the PAPI check
  passes, it fails with this very error, the options being those of the blocks before.
  An incomplete triple of environment variables for an optional dependency gives no
  option, and the block for BLACS, FFTW and ScaLAPACK never raises.\<close>

theorem petsc_blas_lapack_required:
  assumes "version_ge (version self) ''3''"
    and "\<not> (truthy (environ self ''BLAS_LAPACK_LIB_DIR'') \<and>
              truthy (environ self ''BLAS_LAPACK_STATIC_LIBS''))"
  shows "petsc_blas_lapack self =
      Inl (EasyBuildError ''One or more environment variables for BLAS/LAPACK not defined?'' [], self) \<and>
    isl (petsc_configure_step w self) \<and>
    ((with_papi self \<longrightarrow> isfile w (papi_inc_file self) \<and> isfile w (papi_lib self)) \<longrightarrow>
      (\<exists>self7.
        in_turn [petsc_compilers, petsc_compiler_flags, petsc_toolchain_opts, petsc_build_options,
          petsc_papi w, petsc_python w, petsc_blacs_fftw_scalapack] self = Inr self7 \<and>
        petsc_configure_step w self =
          Inl (EasyBuildError ''One or more environment variables for BLAS/LAPACK not defined?'' [],
               self7))) \<and>
    (\<not> (truthy (environ self iv) \<and> truthy (environ self lv) \<and> truthy (environ self sv)) \<longrightarrow>
      env_triple_opts self iv lv sv arg = []) \<and>
    (\<exists>self'. petsc_blacs_fftw_scalapack self = Inr self')"
proof (intro conjI impI)
  show "petsc_blas_lapack self =
      Inl (EasyBuildError ''One or more environment variables for BLAS/LAPACK not defined?'' [], self)"
    using assms(2) by (simp add: petsc_blas_lapack_def log_error_def Let_def)
  show c: "\<exists>self7.
        in_turn [petsc_compilers, petsc_compiler_flags, petsc_toolchain_opts, petsc_build_options,
          petsc_papi w, petsc_python w, petsc_blacs_fftw_scalapack] self = Inr self7 \<and>
        petsc_configure_step w self =
          Inl (EasyBuildError ''One or more environment variables for BLAS/LAPACK not defined?'' [],
               self7)"
    if h: "with_papi self \<longrightarrow> isfile w (papi_inc_file self) \<and> isfile w (papi_lib self)"
  proof -
    obtain self7 where r: "in_turn [petsc_compilers, petsc_compiler_flags, petsc_toolchain_opts,
        petsc_build_options, petsc_papi w, petsc_python w, petsc_blacs_fftw_scalapack] self = Inr self7"
      using first7_ok by blast
    from configure_step_options_fail [OF assms(1) options_blas_missing [OF assms(2) r]] r
    show ?thesis by blast
  qed
  show "isl (petsc_configure_step w self)"
  proof -
    obtain self7 where r: "in_turn [petsc_compilers, petsc_compiler_flags, petsc_toolchain_opts,
        petsc_build_options, petsc_papi w, petsc_python w, petsc_blacs_fftw_scalapack] self = Inr self7"
      using first7_ok by blast
    from configure_step_options_fail [OF assms(1) options_blas_missing [OF assms(2) r]]
    show ?thesis by simp
  qed
  show "env_triple_opts self iv lv sv arg = []"
    if "\<not> (truthy (environ self iv) \<and> truthy (environ self lv) \<and> truthy (environ self sv))"
    using that by (simp add: env_triple_opts_def Let_def)
  show "\<exists>self'. petsc_blacs_fftw_scalapack self = Inr self'"
    by (rule blacs_ok)
qed

theorem petsc_blas_lapack_required_witness:
  "petsc_blas_lapack (example_petsc ''3.5'' False False [''BLAS_LAPACK_LIB_DIR'' \<mapsto> ''/opt/blas/lib'']) =
      Inl (EasyBuildError ''One or more environment variables for BLAS/LAPACK not defined?'' [],
           example_petsc ''3.5'' False False [''BLAS_LAPACK_LIB_DIR'' \<mapsto> ''/opt/blas/lib'']) \<and>
   isl (petsc_configure_step (example_world ''Configure done'')
      (example_petsc ''3.5'' False False [''BLAS_LAPACK_LIB_DIR'' \<mapsto> ''/opt/blas/lib''])) \<and>
   fst (projl (petsc_configure_step (example_world ''Configure done'')
      (example_petsc ''3.5'' False False [''BLAS_LAPACK_LIB_DIR'' \<mapsto> ''/opt/blas/lib'']))) =
     EasyBuildError ''One or more environment variables for BLAS/LAPACK not defined?'' [] \<and>
   env_triple_opts (example_petsc ''3.5'' False False [''BLAS_LAPACK_LIB_DIR'' \<mapsto> ''/opt/blas/lib''])
     ''FFTW_INC_DIR'' ''FFTW_LIB_DIR'' ''FFTW_STATIC_LIBS'' ''--with-fftw'' = []"
proof -
  have 1: "version_ge (version (example_petsc ''3.5'' False False [''BLAS_LAPACK_LIB_DIR'' \<mapsto> ''/opt/blas/lib''])) ''3''"
    by (simp add: example_petsc_def version_facts)
  have 2: "\<not> (truthy (environ (example_petsc ''3.5'' False False [''BLAS_LAPACK_LIB_DIR'' \<mapsto> ''/opt/blas/lib''])
                ''BLAS_LAPACK_LIB_DIR'') \<and>
              truthy (environ (example_petsc ''3.5'' False False [''BLAS_LAPACK_LIB_DIR'' \<mapsto> ''/opt/blas/lib''])
                ''BLAS_LAPACK_STATIC_LIBS''))"
    by (simp add: example_petsc_def truthy_def)
  have 3: "with_papi (example_petsc ''3.5'' False False [''BLAS_LAPACK_LIB_DIR'' \<mapsto> ''/opt/blas/lib'']) = False"
    by (simp add: example_petsc_def)
  have 4: "environ (example_petsc ''3.5'' False False [''BLAS_LAPACK_LIB_DIR'' \<mapsto> ''/opt/blas/lib''])
      ''FFTW_INC_DIR'' = None"
    by (simp add: example_petsc_def)
  from petsc_blas_lapack_required [OF 1 2, where w = "example_world ''Configure done''"
      and iv = "''FFTW_INC_DIR''" and lv = "''FFTW_LIB_DIR''" and sv = "''FFTW_STATIC_LIBS''"
      and arg = "''--with-fftw''"]
  show ?thesis
    by (auto simp: 3 4 truthy_def)
qed

subsection \<open>PETSc: parallel builds\<close>

lemma keep_updates: "version (updates s vs) = version s" "parallel (updates s vs) = parallel s"
proof -
  have "version ((updates s vs)\<lparr>configopts := []\<rparr>) = version (s\<lparr>configopts := []\<rparr>)"
    "parallel ((updates s vs)\<lparr>configopts := []\<rparr>) = parallel (s\<lparr>configopts := []\<rparr>)"
    by (simp_all only: updates_reset)
  then show "version (updates s vs) = version s" "parallel (updates s vs) = parallel s"
    by simp_all
qed

lemma keep_of_frame:
  "s'\<lparr>configopts := configopts s\<rparr> = s \<Longrightarrow> version s' = version s \<and> parallel s' = parallel s"
proof -
  assume a: "s'\<lparr>configopts := configopts s\<rparr> = s"
  have "version (s'\<lparr>configopts := configopts s\<rparr>) = version s"
    "parallel (s'\<lparr>configopts := configopts s\<rparr>) = parallel s"
    by (simp_all only: a)
  then show ?thesis by simp
qed

lemma keep_of_frame2:
  "s'\<lparr>configopts := configopts s, error_log := error_log s\<rparr> = s \<Longrightarrow>
     version s' = version s \<and> parallel s' = parallel s"
proof -
  assume a: "s'\<lparr>configopts := configopts s, error_log := error_log s\<rparr> = s"
  have "version (s'\<lparr>configopts := configopts s, error_log := error_log s\<rparr>) = version s"
    "parallel (s'\<lparr>configopts := configopts s, error_log := error_log s\<rparr>) = parallel s"
    by (simp_all only: a)
  then show ?thesis by simp
qed

lemma keep_set_petsc_dir:
  "petsc_set_petsc_dir s = Inr s' \<Longrightarrow> version s' = version s \<and> parallel s' = parallel s"
  by (auto simp: petsc_set_petsc_dir_def update_buildopts_def)

lemma keep_check_output:
  "petsc_check_output out s = Inr s' \<Longrightarrow> version s' = version s \<and> parallel s' = parallel s"
  by (auto simp: petsc_check_output_def log_error_def split: if_splits)

lemma keep_find_arch:
  "petsc_find_arch w out s = Inr s' \<Longrightarrow> version s' = version s \<and> parallel s' = parallel s"
  by (auto simp: petsc_find_arch_def log_error_def update_buildopts_def split: if_splits option.splits)

lemma keep_set_subdir:
  "petsc_set_subdir s = Inr s' \<Longrightarrow> version s' = version s \<and> parallel s' = parallel s"
  by (auto simp: petsc_set_subdir_def)

lemmas keep_phase =
  frame_compilers [THEN keep_of_frame] frame_compiler_flags [THEN keep_of_frame]
  frame_toolchain_opts [THEN keep_of_frame] frame_build_options [THEN keep_of_frame]
  frame_papi [THEN keep_of_frame2] frame_python [THEN keep_of_frame]
  frame_blacs [THEN keep_of_frame] frame_blas [THEN keep_of_frame]
  frame_additional_deps [THEN keep_of_frame] frame_suitesparse [THEN keep_of_frame]
  keep_set_petsc_dir keep_check_output keep_find_arch keep_set_subdir

lemma keep_options:
  assumes "petsc_options w self = Inr self1"
  shows "version self1 = version self \<and> parallel self1 = parallel self"
proof (rule in_turn_rel [where Q = "\<lambda>s s'. version s' = version s \<and> parallel s' = parallel s",
      OF _ _ _ assms [unfolded petsc_options_def]])
  show "\<And>s. version s = version s \<and> parallel s = parallel s" by simp
  show "\<And>a b c. version b = version a \<and> parallel b = parallel a \<Longrightarrow>
      version c = version b \<and> parallel c = parallel b \<Longrightarrow>
      version c = version a \<and> parallel c = parallel a" by simp
  show "\<And>f s s'. f \<in> set [petsc_compilers, petsc_compiler_flags, petsc_toolchain_opts,
        petsc_build_options, petsc_papi w, petsc_python w, petsc_blacs_fftw_scalapack,
        petsc_blas_lapack, petsc_additional_deps w, petsc_suitesparse w, petsc_set_petsc_dir] \<Longrightarrow>
      f s = Inr s' \<Longrightarrow> version s' = version s \<and> parallel s' = parallel s"
    by (auto dest: keep_phase)
qed

lemma keep_after:
  assumes "in_turn [petsc_check_output out, petsc_find_arch w out, petsc_set_subdir] self1 = Inr self'"
  shows "version self' = version self1 \<and> parallel self' = parallel self1"
proof (rule in_turn_rel [where Q = "\<lambda>s s'. version s' = version s \<and> parallel s' = parallel s",
      OF _ _ _ assms])
  show "\<And>s. version s = version s \<and> parallel s = parallel s" by simp
  show "\<And>a b c. version b = version a \<and> parallel b = parallel a \<Longrightarrow>
      version c = version b \<and> parallel c = parallel b \<Longrightarrow>
      version c = version a \<and> parallel c = parallel a" by simp
  show "\<And>f s s'. f \<in> set [petsc_check_output out, petsc_find_arch w out, petsc_set_subdir] \<Longrightarrow>
      f s = Inr s' \<Longrightarrow> version s' = version s \<and> parallel s' = parallel s"
    by (auto dest: keep_phase)
qed

lemma keep_configure_new:
  assumes "petsc_configure_new w self = Inr self'"
  shows "version self' = version self \<and> parallel self' = parallel self"
proof -
  from assms obtain self1 out where o: "petsc_options w self = Inr self1"
    and r: "in_turn [petsc_check_output out, petsc_find_arch w out, petsc_set_subdir] self1 = Inr self'"
    by (auto simp: petsc_configure_new_def split: sum.splits)
  from keep_options [OF o] keep_after [OF r] show ?thesis by simp
qed

lemma keep_configure_old:
  assumes "petsc_configure_old w self = Inr self'"
  shows "version self' = version self \<and> parallel self' = parallel self"
  using assms
  by (auto simp: petsc_configure_old_def Let_def keep_updates update_configopts_def
      split: sum.splits if_splits)

lemma keep_symlinks:
  "petsc_symlinks symlink self fs = Inr self' \<Longrightarrow> self' = self"
  by (induction fs) (auto simp: Let_def log_error_def split: option.splits)

text \<open>C10: when configure_step returns, \<open>parallel\<close> is \<open>None\<close> if the version is
  3.5 or later and is what it was otherwise; make_builddir, install_step and
  sanity_check_step leave it as it is.\<close>

theorem petsc_parallel_frame:
  "(petsc_configure_step w self = Inr self' \<longrightarrow>
      parallel self' = (if version_ge (version self) ''3.5'' then None else parallel self)) \<and>
   (petsc_make_builddir super_make_builddir self = Inr self' \<longrightarrow> parallel self' = parallel self) \<and>
   (petsc_install_step super_install_step symlink self = Inr self' \<longrightarrow>
      parallel self' = parallel self) \<and>
   (petsc_sanity_check_step file_exists dir_exists w self = Inr self' \<longrightarrow>
      parallel self' = parallel self)"
proof (intro conjI impI)
  assume a: "petsc_configure_step w self = Inr self'"
  then obtain self2 where
    c: "(if version_ge (version self) ''3'' then petsc_configure_new w self
         else petsc_configure_old w self) = Inr self2"
    and e: "self' = (if version_ge (version self2) ''3.5'' then self2\<lparr>parallel := None\<rparr> else self2)"
    by (auto simp: petsc_configure_step_def split: sum.splits)
  have "version self2 = version self \<and> parallel self2 = parallel self"
    using c keep_configure_new keep_configure_old by (auto split: if_splits)
  then show "parallel self' = (if version_ge (version self) ''3.5'' then None else parallel self)"
    using e by simp
next
  assume "petsc_make_builddir super_make_builddir self = Inr self'"
  then show "parallel self' = parallel self"
    by (auto simp: petsc_make_builddir_def Let_def split: sum.splits if_splits)
next
  assume "petsc_install_step super_install_step symlink self = Inr self'"
  then show "parallel self' = parallel self"
    by (auto simp: petsc_install_step_def simp del: petsc_symlinks.simps dest: keep_symlinks
        split: sum.splits if_splits)
next
  assume "petsc_sanity_check_step file_exists dir_exists w self = Inr self'"
  then show "parallel self' = parallel self"
    by (auto simp: petsc_sanity_check_step_def split: sum.splits)
qed

lemma example_configure_ok:
  "\<exists>self'. petsc_configure_step (example_world ''Configure done'') (example_petsc ''3.5'' False False blas_env)
      = Inr self'"
  "\<exists>self'. petsc_configure_step (example_world ''Configure done'') (example_petsc ''3.4'' False False blas_env)
      = Inr self'"
  by (simp_all add: petsc_defs example_defs version_facts lower_facts str_facts sublist_code)

theorem petsc_parallel_frame_witness:
  "parallel (projr (petsc_configure_step (example_world ''Configure done'')
     (example_petsc ''3.5'' False False blas_env))) = None \<and>
   parallel (projr (petsc_configure_step (example_world ''Configure done'')
     (example_petsc ''3.4'' False False blas_env))) = Some 4 \<and>
   parallel (projr (petsc_install_step (\<lambda>self. Inr ()) (\<lambda>src dst. None)
     (example_petsc ''3.4'' False False blas_env))) = Some 4 \<and>
   parallel (projr (petsc_make_builddir (\<lambda>self. Inr ()) (example_petsc ''3.4'' True False blas_env))) = Some 4 \<and>
   parallel (projr (petsc_sanity_check_step (\<lambda>p. True) (\<lambda>p. True) (example_world [])
     (example_petsc ''3.4'' False False blas_env))) = Some 4"
proof -
  obtain a where a: "petsc_configure_step (example_world ''Configure done'')
      (example_petsc ''3.5'' False False blas_env) = Inr a"
    using example_configure_ok(1) by blast
  obtain b where b: "petsc_configure_step (example_world ''Configure done'')
      (example_petsc ''3.4'' False False blas_env) = Inr b"
    using example_configure_ok(2) by blast
  have c: "petsc_install_step (\<lambda>self. Inr ()) (\<lambda>src dst. None) (example_petsc ''3.4'' False False blas_env)
      = Inr (example_petsc ''3.4'' False False blas_env)"
    by (simp add: petsc_install_step_def example_petsc_def version_facts)
  have d: "petsc_make_builddir (\<lambda>self. Inr ()) (example_petsc ''3.4'' True False blas_env)
      = Inr ((example_petsc ''3.4'' True False blas_env)\<lparr>build_in_installdir := True\<rparr>)"
    by (simp add: petsc_make_builddir_def example_petsc_def)
  have e: "petsc_sanity_check_step (\<lambda>p. True) (\<lambda>p. True) (example_world [])
      (example_petsc ''3.4'' False False blas_env) = Inr (example_petsc ''3.4'' False False blas_env)"
    by (simp add: petsc_sanity_check_step_def verify_installed_def)
  have v: "version (example_petsc ''3.5'' False False blas_env) = ''3.5''"
    "version (example_petsc ''3.4'' False False blas_env) = ''3.4''"
    "parallel (example_petsc ''3.4'' False False blas_env) = Some 4"
    "parallel (example_petsc ''3.4'' True False blas_env) = Some 4"
    by (simp_all add: example_petsc_def)
  from petsc_parallel_frame [where w = "example_world ''Configure done''"
      and self = "example_petsc ''3.5'' False False blas_env" and self' = a]
    petsc_parallel_frame [where w = "example_world ''Configure done''"
      and self = "example_petsc ''3.4'' False False blas_env" and self' = b]
    petsc_parallel_frame [where super_install_step = "\<lambda>self. Inr ()" and symlink = "\<lambda>src dst. None"
      and self = "example_petsc ''3.4'' False False blas_env"
      and self' = "example_petsc ''3.4'' False False blas_env"]
    petsc_parallel_frame [where super_make_builddir = "\<lambda>self. Inr ()"
      and self = "example_petsc ''3.4'' True False blas_env"
      and self' = "(example_petsc ''3.4'' True False blas_env)\<lparr>build_in_installdir := True\<rparr>"]
    petsc_parallel_frame [where file_exists = "\<lambda>p. True" and dir_exists = "\<lambda>p. True"
      and w = "example_world []" and self = "example_petsc ''3.4'' False False blas_env"
      and self' = "example_petsc ''3.4'' False False blas_env"]
  show ?thesis
    by (simp add: a b c d e v version_facts)
qed

subsection \<open>The sanity checks\<close>

lemma verify_installed_ok:
  "(\<forall>p \<in> set (files paths). file_exists p) \<and> (\<forall>p \<in> set (dirs paths). dir_exists p) \<Longrightarrow>
     verify_installed file_exists dir_exists paths = Inr ()"
  by (simp add: verify_installed_def filter_empty_conv)

lemma verify_installed_missing:
  "\<not> ((\<forall>p \<in> set (files paths). file_exists p) \<and> (\<forall>p \<in> set (dirs paths). dir_exists p)) \<Longrightarrow>
     verify_installed file_exists dir_exists paths =
       Inl (MissingArtifactError (filter (\<lambda>p. \<not> file_exists p) (files paths)
                                  @ filter (\<lambda>p. \<not> dir_exists p) (dirs paths)))"
  by (auto simp: verify_installed_def filter_empty_conv Let_def)

text \<open>C8: the check of the installation succeeds when every expected file and directory
  exists, and otherwise fails with the list of exactly those that do not; Blender expects
  \<open>bin/blender\<close>; PETSc hands its own paths to the same check. Those paths are
  \<open>lib/libpetsc.<ext>\<close>, \<open>bin\<close>, \<open>conf\<close> and \<open>include\<close> for a regular installation,
  and for a source installation they lie under \<open>petsc_subdir\<close> (\<open>bin\<close>, \<open>include\<close>)
  and under \<open>petsc_subdir/petsc_arch\<close> (\<open>lib\<close>, \<open>conf\<close>, \<open>include\<close>); the extension is
  the one of shared libraries when \<open>shared_libs\<close> is set and \<open>a\<close> otherwise.\<close>

theorem sanity_check_paths:
  "((\<forall>p \<in> set (files paths). file_exists p) \<and> (\<forall>p \<in> set (dirs paths). dir_exists p) \<longrightarrow>
      verify_installed file_exists dir_exists paths = Inr ()) \<and>
   (\<not> ((\<forall>p \<in> set (files paths). file_exists p) \<and> (\<forall>p \<in> set (dirs paths). dir_exists p)) \<longrightarrow>
      (\<exists>missing. verify_installed file_exists dir_exists paths = Inl (MissingArtifactError missing) \<and>
         set missing = {p \<in> set (files paths). \<not> file_exists p} \<union>
                       {p \<in> set (dirs paths). \<not> dir_exists p})) \<and>
   blender_sanity_check_step file_exists dir_exists =
     (if file_exists ''bin/blender'' then Inr () else Inl (MissingArtifactError [''bin/blender''])) \<and>
   petsc_sanity_check_step file_exists dir_exists w self =
     (case verify_installed file_exists dir_exists (petsc_custom_paths w self) of
        Inl e \<Rightarrow> Inl e | Inr u \<Rightarrow> Inr self) \<and>
   (\<not> sourceinstall self \<longrightarrow>
      petsc_custom_paths w self =
        \<lparr>files = [''lib/libpetsc.'' @ (if shared_libs self then get_shared_lib_ext w else ''a'')],
         dirs = [''bin'', ''conf'', ''include'', ''include'']\<rparr>) \<and>
   (sourceinstall self \<and> petsc_subdir self \<noteq> [] \<and> last (petsc_subdir self) \<noteq> CHR ''/'' \<and>
    petsc_arch self \<noteq> [] \<and> hd (petsc_arch self) \<noteq> CHR ''/'' \<and> last (petsc_arch self) \<noteq> CHR ''/'' \<longrightarrow>
      petsc_custom_paths w self =
        \<lparr>files = [petsc_subdir self @ ''/'' @ petsc_arch self @ ''/lib/libpetsc.''
                    @ (if shared_libs self then get_shared_lib_ext w else ''a'')],
         dirs = [petsc_subdir self @ ''/bin'',
                 petsc_subdir self @ ''/'' @ petsc_arch self @ ''/conf'',
                 petsc_subdir self @ ''/include'',
                 petsc_subdir self @ ''/'' @ petsc_arch self @ ''/include'']\<rparr>)"
proof (intro conjI impI)
  show "verify_installed file_exists dir_exists paths = Inr ()"
    if "(\<forall>p \<in> set (files paths). file_exists p) \<and> (\<forall>p \<in> set (dirs paths). dir_exists p)"
    using that by (rule verify_installed_ok)
  show "\<exists>missing. verify_installed file_exists dir_exists paths = Inl (MissingArtifactError missing) \<and>
         set missing = {p \<in> set (files paths). \<not> file_exists p} \<union>
                       {p \<in> set (dirs paths). \<not> dir_exists p}"
    if h: "\<not> ((\<forall>p \<in> set (files paths). file_exists p) \<and> (\<forall>p \<in> set (dirs paths). dir_exists p))"
    using verify_installed_missing [OF h] by auto
  show "blender_sanity_check_step file_exists dir_exists =
     (if file_exists ''bin/blender'' then Inr () else Inl (MissingArtifactError [''bin/blender'']))"
    by (simp add: blender_sanity_check_step_def blender_custom_paths_def verify_installed_def)
  show "petsc_sanity_check_step file_exists dir_exists w self =
     (case verify_installed file_exists dir_exists (petsc_custom_paths w self) of
        Inl e \<Rightarrow> Inl e | Inr u \<Rightarrow> Inr self)"
    by (simp add: petsc_sanity_check_step_def)
  show "petsc_custom_paths w self =
        \<lparr>files = [''lib/libpetsc.'' @ (if shared_libs self then get_shared_lib_ext w else ''a'')],
         dirs = [''bin'', ''conf'', ''include'', ''include'']\<rparr>"
    if "\<not> sourceinstall self"
    using that by (simp add: petsc_custom_paths_def os_path_join_def path_join2_def)
  show "petsc_custom_paths w self =
        \<lparr>files = [petsc_subdir self @ ''/'' @ petsc_arch self @ ''/lib/libpetsc.''
                    @ (if shared_libs self then get_shared_lib_ext w else ''a'')],
         dirs = [petsc_subdir self @ ''/bin'',
                 petsc_subdir self @ ''/'' @ petsc_arch self @ ''/conf'',
                 petsc_subdir self @ ''/include'',
                 petsc_subdir self @ ''/'' @ petsc_arch self @ ''/include'']\<rparr>"
    if h: "sourceinstall self \<and> petsc_subdir self \<noteq> [] \<and> last (petsc_subdir self) \<noteq> CHR ''/'' \<and>
    petsc_arch self \<noteq> [] \<and> hd (petsc_arch self) \<noteq> CHR ''/'' \<and> last (petsc_arch self) \<noteq> CHR ''/''"
    using h by (simp add: petsc_custom_paths_def os_path_join_def path_join2_def Let_def)
qed

theorem sanity_check_paths_witness:
  "verify_installed (\<lambda>p. True) (\<lambda>p. True) \<lparr>files = [''bin/x''], dirs = []\<rparr> = Inr () \<and>
   verify_installed (\<lambda>p. False) (\<lambda>p. True) \<lparr>files = [''bin/x''], dirs = []\<rparr> =
     Inl (MissingArtifactError [''bin/x'']) \<and>
   petsc_custom_paths (example_world []) (example_petsc ''3.5'' False False Map.empty) =
     \<lparr>files = [''lib/libpetsc.a''], dirs = [''bin'', ''conf'', ''include'', ''include'']\<rparr> \<and>
   petsc_custom_paths (example_world [])
       ((example_petsc ''3.5'' True False Map.empty)
          \<lparr>shared_libs := True, petsc_arch := ''arch-linux2-c-opt'', petsc_subdir := ''petsc-3.5''\<rparr>) =
     \<lparr>files = [''petsc-3.5/arch-linux2-c-opt/lib/libpetsc.so''],
      dirs = [''petsc-3.5/bin'', ''petsc-3.5/arch-linux2-c-opt/conf'', ''petsc-3.5/include'',
              ''petsc-3.5/arch-linux2-c-opt/include'']\<rparr>"
proof -
  have 1: "\<exists>missing. verify_installed (\<lambda>p. False) (\<lambda>p. True) \<lparr>files = [''bin/x''], dirs = []\<rparr> =
      Inl (MissingArtifactError missing) \<and> set missing = {''bin/x''}"
    using sanity_check_paths [where file_exists = "\<lambda>p. False" and dir_exists = "\<lambda>p. True"
        and paths = "\<lparr>files = [''bin/x''], dirs = []\<rparr>"]
    by simp
  have 2: "verify_installed (\<lambda>p. False) (\<lambda>p. True) \<lparr>files = [''bin/x''], dirs = []\<rparr> =
     Inl (MissingArtifactError [''bin/x''])"
    by (simp add: verify_installed_def)
  from sanity_check_paths [where file_exists = "\<lambda>p. True" and dir_exists = "\<lambda>p. True"
        and paths = "\<lparr>files = [''bin/x''], dirs = []\<rparr>" and w = "example_world []"
        and self = "example_petsc ''3.5'' False False Map.empty"]
    sanity_check_paths [where w = "example_world []"
        and self = "(example_petsc ''3.5'' True False Map.empty)
          \<lparr>shared_libs := True, petsc_arch := ''arch-linux2-c-opt'', petsc_subdir := ''petsc-3.5''\<rparr>"]
    1 2
  show ?thesis
    by (simp add: example_petsc_def example_world_def)
qed

subsection \<open>PETSc: optional dependencies\<close>

lemma env_triple_absent:
  "\<not> (truthy (environ self iv) \<and> truthy (environ self lv) \<and> truthy (environ self sv)) \<Longrightarrow>
     env_triple_opts self iv lv sv arg = []"
  by (simp add: env_triple_opts_def Let_def)

lemma dep_opts_absent: "\<not> truthy (get_software_root w dep) \<Longrightarrow> dep_opts w ver dep = []"
  by (simp add: dep_opts_def Let_def)

lemma updates_append: "updates (updates self xs) ys = updates self (xs @ ys)"
  by (simp add: updates_def)

lemma environ_updates: "environ (updates self vs) = environ self"
proof -
  have "environ ((updates self vs)\<lparr>configopts := []\<rparr>) = environ (self\<lparr>configopts := []\<rparr>)"
    by (simp only: updates_reset)
  then show ?thesis by simp
qed

lemma env_triple_opts_updates:
  "env_triple_opts (updates self vs) iv lv sv arg = env_triple_opts self iv lv sv arg"
  by (simp add: env_triple_opts_def environ_updates)

lemma env_dep_opts_names:
  "env_dep_opts self ''BLACS'' =
     env_triple_opts self ''BLACS_INC_DIR'' ''BLACS_LIB_DIR'' ''BLACS_STATIC_LIBS'' ''--with-blacs''"
  "env_dep_opts self ''FFTW'' =
     env_triple_opts self ''FFTW_INC_DIR'' ''FFTW_LIB_DIR'' ''FFTW_STATIC_LIBS'' ''--with-fftw''"
  "env_dep_opts self ''ScaLAPACK'' =
     env_triple_opts self ''SCALAPACK_INC_DIR'' ''SCALAPACK_LIB_DIR'' ''SCALAPACK_STATIC_LIBS''
       ''--with-scalapack''"
  by (simp_all add: env_dep_opts_def str_facts)

lemma foldl_updates_concat:
  "foldl (\<lambda>self' dep. updates self' (f dep)) self ds = updates self (concat (map f ds))"
proof (induction ds arbitrary: self)
  case Nil
  show ?case by (simp add: updates_Nil)
next
  case (Cons d ds)
  show ?case by (simp add: Cons.IH updates_append)
qed

lemma deps_names:
  "deps self =
     filter (\<lambda>n. n \<notin> set [''BLACS'', ''BLAS'', ''FFTW'', ''LAPACK'', ''numpy'', ''CMake'',
                             ''mpi4py'', ''papi'', ''ScaLAPACK'', ''SuiteSparse''])
       (dependencies self)"
proof -
  have "PyStr n \<in> set (depfilter self) \<longleftrightarrow>
      n \<in> set [''BLACS'', ''BLAS'', ''FFTW'', ''LAPACK'', ''numpy'', ''CMake'',
                 ''mpi4py'', ''papi'', ''ScaLAPACK'', ''SuiteSparse'']" for n
    unfolding depfilter_def set_append set_map by blast
  then show ?thesis
    by (simp only: deps_def)
qed

lemma blacs_fftw_scalapack_eq:
  "petsc_blacs_fftw_scalapack self =
     Inr (updates self
       ((if version_ge (version self) ''3.5'' then []
         else env_triple_opts self ''BLACS_INC_DIR'' ''BLACS_LIB_DIR'' ''BLACS_STATIC_LIBS''
                ''--with-blacs'')
        @ env_triple_opts self ''FFTW_INC_DIR'' ''FFTW_LIB_DIR'' ''FFTW_STATIC_LIBS'' ''--with-fftw''
        @ env_triple_opts self ''SCALAPACK_INC_DIR'' ''SCALAPACK_LIB_DIR'' ''SCALAPACK_STATIC_LIBS''
            ''--with-scalapack''))"
proof (cases "version_ge (version self) ''3.5''")
  case True
  then show ?thesis
    by (simp add: petsc_blacs_fftw_scalapack_def updates_append)
next
  case False
  have "foldl (\<lambda>self' dep. updates self' (env_dep_opts self' dep)) self [''BLACS'', ''FFTW'', ''ScaLAPACK''] =
      updates (updates (updates self (env_dep_opts self ''BLACS''))
        (env_dep_opts (updates self (env_dep_opts self ''BLACS'')) ''FFTW''))
        (env_dep_opts (updates (updates self (env_dep_opts self ''BLACS''))
           (env_dep_opts (updates self (env_dep_opts self ''BLACS'')) ''FFTW'')) ''ScaLAPACK'')"
    by simp
  also have "\<dots> = updates self
      (env_triple_opts self ''BLACS_INC_DIR'' ''BLACS_LIB_DIR'' ''BLACS_STATIC_LIBS'' ''--with-blacs''
       @ env_triple_opts self ''FFTW_INC_DIR'' ''FFTW_LIB_DIR'' ''FFTW_STATIC_LIBS'' ''--with-fftw''
       @ env_triple_opts self ''SCALAPACK_INC_DIR'' ''SCALAPACK_LIB_DIR'' ''SCALAPACK_STATIC_LIBS''
           ''--with-scalapack'')"
    by (simp only: env_dep_opts_names env_triple_opts_updates updates_append append_assoc)
  finally show ?thesis
    using False by (simp only: petsc_blacs_fftw_scalapack_def if_False append_Nil)
qed

lemma ss_lower_facts:
  "str_lower ''UMFPACK'' = ''umfpack''" "str_lower ''KLU'' = ''klu''" "str_lower ''CHOLMOD'' = ''cholmod''"
  "str_lower ''BTF'' = ''btf''" "str_lower ''CCOLAMD'' = ''ccolamd''" "str_lower ''COLAMD'' = ''colamd''"
  "str_lower ''CAMD'' = ''camd''" "str_lower ''AMD'' = ''amd''"
  by code_simp+

lemma suitesparse_opts_new:
  assumes "r \<noteq> []" "last r \<noteq> CHR ''/''" "version_ge ver ''3.5''"
  shows "suitesparse_opts ver r =
      ''--with-suitesparse=1 --with-suitesparse-include=['' @
      r @ ''/UMFPACK/Include,'' @
      r @ ''/KLU/Include,'' @
      r @ ''/CHOLMOD/Include,'' @
      r @ ''/BTF/Include,'' @
      r @ ''/CCOLAMD/Include,'' @
      r @ ''/COLAMD/Include,'' @
      r @ ''/CAMD/Include,'' @
      r @ ''/AMD/Include,'' @
      r @ ''/SuiteSparse_config'' @
      ''] --with-suitesparse-lib=['' @
      r @ ''/UMFPACK/Lib/libumfpack.a,'' @
      r @ ''/KLU/Lib/libklu.a,'' @
      r @ ''/CHOLMOD/Lib/libcholmod.a,'' @
      r @ ''/BTF/Lib/libbtf.a,'' @
      r @ ''/CCOLAMD/Lib/libccolamd.a,'' @
      r @ ''/COLAMD/Lib/libcolamd.a,'' @
      r @ ''/CAMD/Lib/libcamd.a,'' @
      r @ ''/AMD/Lib/libamd.a,'' @
      r @ ''/SuiteSparse_config/libsuitesparseconfig.a'' @
      '']''"
  using assms
  by (simp add: suitesparse_opts_def ss_libs_def ss_lower_facts os_path_join_def path_join2_def Let_def)

lemma suitesparse_opts_old:
  assumes "r \<noteq> []" "last r \<noteq> CHR ''/''" "\<not> version_ge ver ''3.5''"
  shows "suitesparse_opts ver r =
      ''--with-umfpack=1 --with-umfpack-include='' @
      r @ ''/UMFPACK/Include'' @
      '' --with-umfpack-lib=['' @
      r @ ''/UMFPACK/Lib/libumfpack.a,'' @
      r @ ''/CHOLMOD/Lib/libcholmod.a,'' @
      r @ ''/COLAMD/Lib/libcolamd.a,'' @
      r @ ''/AMD/Lib/libamd.a'' @
      '']''"
  using assms
  by (simp add: suitesparse_opts_def ss_lower_facts os_path_join_def path_join2_def Let_def)


text \<open>C4, as the code has it, for version 3 and later. No optional dependency that is
  absent gets an option, and none of the blocks raises. Python (by its software root)
  gets \<open>--with-numpy=1\<close>, and \<open>--with-mpi4py=1\<close> with shared libraries. FFTW and
  ScaLAPACK, and before 3.5 BLACS, are described by three environment variables each: no
  option when one of the three is unset or empty, otherwise exactly the three options
  \<open>=1\<close>, \<open>-include=<inc>\<close> and \<open>-lib=[<libdir>/<libs>]\<close> with the values as they are.
  Every dependency of the easyconfig whose name is not one of the ten names handled
  elsewhere is found by its software root: no option when the root is absent, otherwise
  exactly one value with the two options \<open>=1\<close> and \<open>-dir=<root>\<close>. SuiteSparse (by its
  software root) gets one value with the three options \<open>=1\<close>, \<open>-include=\<close> and \<open>-lib=\<close>,
  named \<open>--with-suitesparse\<close> from 3.5 on and \<open>--with-umfpack\<close> before, whose paths
  are built on the root.\<close>

theorem optional_dependency_flags:
  "(\<not> (truthy (environ self iv) \<and> truthy (environ self lv) \<and> truthy (environ self sv)) \<longrightarrow>
      env_triple_opts self iv lv sv arg = []) \<and>
   (environ self iv = Some inc \<and> inc \<noteq> [] \<and> environ self lv = Some libdir \<and> libdir \<noteq> [] \<and>
    environ self sv = Some libs \<and> libs \<noteq> [] \<longrightarrow>
      env_triple_opts self iv lv sv arg =
        [arg @ ''=1'', arg @ ''-include='' @ inc, arg @ ''-lib=['' @ libdir @ ''/'' @ libs @ '']'']) \<and>
   (\<not> truthy (get_software_root w dep) \<longrightarrow> dep_opts w ver dep = []) \<and>
   (get_software_root w dep = Some root \<and> root \<noteq> [] \<longrightarrow>
      dep_opts w ver dep = [withdep ver dep @ ''=1 '' @ withdep ver dep @ ''-dir='' @ root]) \<and>
   petsc_python w self =
     Inr (updates self
       (if truthy (get_software_root w ''Python'')
        then ''--with-numpy=1'' # (if shared_libs self then [''--with-mpi4py=1''] else [])
        else [])) \<and>
   petsc_blacs_fftw_scalapack self =
     Inr (updates self
       ((if version_ge (version self) ''3.5'' then []
         else env_triple_opts self ''BLACS_INC_DIR'' ''BLACS_LIB_DIR'' ''BLACS_STATIC_LIBS''
                ''--with-blacs'')
        @ env_triple_opts self ''FFTW_INC_DIR'' ''FFTW_LIB_DIR'' ''FFTW_STATIC_LIBS'' ''--with-fftw''
        @ env_triple_opts self ''SCALAPACK_INC_DIR'' ''SCALAPACK_LIB_DIR'' ''SCALAPACK_STATIC_LIBS''
            ''--with-scalapack'')) \<and>
   petsc_additional_deps w self =
     Inr (updates self
       (concat (map (dep_opts w (version self))
          (filter (\<lambda>n. n \<notin> set [''BLACS'', ''BLAS'', ''FFTW'', ''LAPACK'', ''numpy'', ''CMake'',
                                    ''mpi4py'', ''papi'', ''ScaLAPACK'', ''SuiteSparse''])
             (dependencies self))))) \<and>
   (\<not> truthy (get_software_root w ''SuiteSparse'') \<longrightarrow> petsc_suitesparse w self = Inr self) \<and>
   (get_software_root w ''SuiteSparse'' = Some r \<and> r \<noteq> [] \<and> last r \<noteq> CHR ''/'' \<longrightarrow>
      petsc_suitesparse w self =
        Inr (update_configopts self
          (if version_ge (version self) ''3.5''
           then
            ''--with-suitesparse=1 --with-suitesparse-include=['' @
            r @ ''/UMFPACK/Include,'' @
            r @ ''/KLU/Include,'' @
            r @ ''/CHOLMOD/Include,'' @
            r @ ''/BTF/Include,'' @
            r @ ''/CCOLAMD/Include,'' @
            r @ ''/COLAMD/Include,'' @
            r @ ''/CAMD/Include,'' @
            r @ ''/AMD/Include,'' @
            r @ ''/SuiteSparse_config'' @
            ''] --with-suitesparse-lib=['' @
            r @ ''/UMFPACK/Lib/libumfpack.a,'' @
            r @ ''/KLU/Lib/libklu.a,'' @
            r @ ''/CHOLMOD/Lib/libcholmod.a,'' @
            r @ ''/BTF/Lib/libbtf.a,'' @
            r @ ''/CCOLAMD/Lib/libccolamd.a,'' @
            r @ ''/COLAMD/Lib/libcolamd.a,'' @
            r @ ''/CAMD/Lib/libcamd.a,'' @
            r @ ''/AMD/Lib/libamd.a,'' @
            r @ ''/SuiteSparse_config/libsuitesparseconfig.a'' @
            '']''
           else
            ''--with-umfpack=1 --with-umfpack-include='' @
            r @ ''/UMFPACK/Include'' @
            '' --with-umfpack-lib=['' @
            r @ ''/UMFPACK/Lib/libumfpack.a,'' @
            r @ ''/CHOLMOD/Lib/libcholmod.a,'' @
            r @ ''/COLAMD/Lib/libcolamd.a,'' @
            r @ ''/AMD/Lib/libamd.a'' @
            '']'')))"
proof (intro conjI impI)
  show "env_triple_opts self iv lv sv arg = []"
    if "\<not> (truthy (environ self iv) \<and> truthy (environ self lv) \<and> truthy (environ self sv))"
    using that by (rule env_triple_absent)
  show "env_triple_opts self iv lv sv arg =
        [arg @ ''=1'', arg @ ''-include='' @ inc, arg @ ''-lib=['' @ libdir @ ''/'' @ libs @ '']'']"
    if "environ self iv = Some inc \<and> inc \<noteq> [] \<and> environ self lv = Some libdir \<and> libdir \<noteq> [] \<and>
        environ self sv = Some libs \<and> libs \<noteq> []"
    using that by (simp add: env_triple_opts_def truthy_def fmt_s_def)
  show "dep_opts w ver dep = []" if "\<not> truthy (get_software_root w dep)"
    using that by (rule dep_opts_absent)
  show "dep_opts w ver dep = [withdep ver dep @ ''=1 '' @ withdep ver dep @ ''-dir='' @ root]"
    if "get_software_root w dep = Some root \<and> root \<noteq> []"
    using that by (simp add: dep_opts_def truthy_def fmt_s_def)
  show "petsc_python w self =
     Inr (updates self
       (if truthy (get_software_root w ''Python'')
        then ''--with-numpy=1'' # (if shared_libs self then [''--with-mpi4py=1''] else [])
        else []))"
    by (simp add: petsc_python_def updates_Nil)
  show "petsc_blacs_fftw_scalapack self =
     Inr (updates self
       ((if version_ge (version self) ''3.5'' then []
         else env_triple_opts self ''BLACS_INC_DIR'' ''BLACS_LIB_DIR'' ''BLACS_STATIC_LIBS''
                ''--with-blacs'')
        @ env_triple_opts self ''FFTW_INC_DIR'' ''FFTW_LIB_DIR'' ''FFTW_STATIC_LIBS'' ''--with-fftw''
        @ env_triple_opts self ''SCALAPACK_INC_DIR'' ''SCALAPACK_LIB_DIR'' ''SCALAPACK_STATIC_LIBS''
            ''--with-scalapack''))"
    by (rule blacs_fftw_scalapack_eq)
  show "petsc_additional_deps w self =
     Inr (updates self
       (concat (map (dep_opts w (version self))
          (filter (\<lambda>n. n \<notin> set [''BLACS'', ''BLAS'', ''FFTW'', ''LAPACK'', ''numpy'', ''CMake'',
                                    ''mpi4py'', ''papi'', ''ScaLAPACK'', ''SuiteSparse''])
             (dependencies self)))))"
    by (simp only: petsc_additional_deps_def foldl_updates_concat deps_names)
  show "petsc_suitesparse w self = Inr self" if "\<not> truthy (get_software_root w ''SuiteSparse'')"
    using that by (simp add: petsc_suitesparse_def)
  show "petsc_suitesparse w self =
        Inr (update_configopts self
          (if version_ge (version self) ''3.5''
           then
            ''--with-suitesparse=1 --with-suitesparse-include=['' @
            r @ ''/UMFPACK/Include,'' @
            r @ ''/KLU/Include,'' @
            r @ ''/CHOLMOD/Include,'' @
            r @ ''/BTF/Include,'' @
            r @ ''/CCOLAMD/Include,'' @
            r @ ''/COLAMD/Include,'' @
            r @ ''/CAMD/Include,'' @
            r @ ''/AMD/Include,'' @
            r @ ''/SuiteSparse_config'' @
            ''] --with-suitesparse-lib=['' @
            r @ ''/UMFPACK/Lib/libumfpack.a,'' @
            r @ ''/KLU/Lib/libklu.a,'' @
            r @ ''/CHOLMOD/Lib/libcholmod.a,'' @
            r @ ''/BTF/Lib/libbtf.a,'' @
            r @ ''/CCOLAMD/Lib/libccolamd.a,'' @
            r @ ''/COLAMD/Lib/libcolamd.a,'' @
            r @ ''/CAMD/Lib/libcamd.a,'' @
            r @ ''/AMD/Lib/libamd.a,'' @
            r @ ''/SuiteSparse_config/libsuitesparseconfig.a'' @
            '']''
           else
            ''--with-umfpack=1 --with-umfpack-include='' @
            r @ ''/UMFPACK/Include'' @
            '' --with-umfpack-lib=['' @
            r @ ''/UMFPACK/Lib/libumfpack.a,'' @
            r @ ''/CHOLMOD/Lib/libcholmod.a,'' @
            r @ ''/COLAMD/Lib/libcolamd.a,'' @
            r @ ''/AMD/Lib/libamd.a'' @
            '']''))"
    if h: "get_software_root w ''SuiteSparse'' = Some r \<and> r \<noteq> [] \<and> last r \<noteq> CHR ''/''"
  proof (cases "version_ge (version self) ''3.5''")
    case True
    from h have "r \<noteq> []" "last r \<noteq> CHR ''/''" by simp_all
    note o = suitesparse_opts_new [OF this True]
    show ?thesis
      using h True by (simp only: petsc_suitesparse_def Let_def truthy_def fmt_s_def option.case o if_True
          simp_thms)
  next
    case False
    from h have "r \<noteq> []" "last r \<noteq> CHR ''/''" by simp_all
    note o = suitesparse_opts_old [OF this False]
    show ?thesis
      using h False by (simp only: petsc_suitesparse_def Let_def truthy_def fmt_s_def option.case o if_True
          if_False simp_thms)
  qed
qed


theorem optional_dependency_flags_witness:
  "env_triple_opts (example_petsc ''3.5'' False False Map.empty)
     ''FFTW_INC_DIR'' ''FFTW_LIB_DIR'' ''FFTW_STATIC_LIBS'' ''--with-fftw'' = [] \<and>
   env_triple_opts
     (example_petsc ''3.5'' False False
        [''FFTW_INC_DIR'' \<mapsto> ''/opt/fftw/include'', ''FFTW_LIB_DIR'' \<mapsto> ''/opt/fftw/lib'',
         ''FFTW_STATIC_LIBS'' \<mapsto> ''libfftw3.a''])
     ''FFTW_INC_DIR'' ''FFTW_LIB_DIR'' ''FFTW_STATIC_LIBS'' ''--with-fftw'' =
     [''--with-fftw=1'', ''--with-fftw-include=/opt/fftw/include'',
      ''--with-fftw-lib=[/opt/fftw/lib/libfftw3.a]''] \<and>
   dep_opts (example_world []) ''3.5'' ''ParMETIS'' = [] \<and>
   dep_opts (example_world []) ''3.5'' ''SCOTCH'' = [''--with-ptscotch=1 --with-ptscotch-dir=/opt/scotch''] \<and>
   petsc_suitesparse (example_world []) (example_petsc ''3.5'' False False Map.empty) =
     Inr (example_petsc ''3.5'' False False Map.empty) \<and>
   map_sum fst configopts
     (petsc_suitesparse ((example_world [])\<lparr>get_software_root := [''SuiteSparse'' \<mapsto> ''/opt/ss'']\<rparr>)
        (example_petsc ''3.5'' False False Map.empty)) =
     Inr ('' --with-suitesparse=1 --with-suitesparse-include=[/opt/ss/UMFPACK/Include,/opt/s'' @
      ''s/KLU/Include,/opt/ss/CHOLMOD/Include,/opt/ss/BTF/Include,/opt/ss/CCOLAMD/Includ'' @
      ''e,/opt/ss/COLAMD/Include,/opt/ss/CAMD/Include,/opt/ss/AMD/Include,/opt/ss/SuiteS'' @
      ''parse_config] --with-suitesparse-lib=[/opt/ss/UMFPACK/Lib/libumfpack.a,/opt/ss/K'' @
      ''LU/Lib/libklu.a,/opt/ss/CHOLMOD/Lib/libcholmod.a,/opt/ss/BTF/Lib/libbtf.a,/opt/s'' @
      ''s/CCOLAMD/Lib/libccolamd.a,/opt/ss/COLAMD/Lib/libcolamd.a,/opt/ss/CAMD/Lib/libca'' @
      ''md.a,/opt/ss/AMD/Lib/libamd.a,/opt/ss/SuiteSparse_config/libsuitesparseconfig.a]'')"
proof -
  note a = optional_dependency_flags [where self = "example_petsc ''3.5'' False False Map.empty"
      and iv = "''FFTW_INC_DIR''" and lv = "''FFTW_LIB_DIR''" and sv = "''FFTW_STATIC_LIBS''"
      and arg = "''--with-fftw''" and w = "example_world []" and dep = "''ParMETIS''" and ver = "''3.5''"]
  note b = optional_dependency_flags [where self = "example_petsc ''3.5'' False False
        [''FFTW_INC_DIR'' \<mapsto> ''/opt/fftw/include'', ''FFTW_LIB_DIR'' \<mapsto> ''/opt/fftw/lib'',
         ''FFTW_STATIC_LIBS'' \<mapsto> ''libfftw3.a'']"
      and iv = "''FFTW_INC_DIR''" and lv = "''FFTW_LIB_DIR''" and sv = "''FFTW_STATIC_LIBS''"
      and arg = "''--with-fftw''" and inc = "''/opt/fftw/include''" and libdir = "''/opt/fftw/lib''"
      and libs = "''libfftw3.a''"]
  note c = optional_dependency_flags [where w = "example_world []" and dep = "''SCOTCH''" and ver = "''3.5''"
      and root = "''/opt/scotch''"]
  note d = optional_dependency_flags [where self = "example_petsc ''3.5'' False False Map.empty"
      and w = "(example_world [])\<lparr>get_software_root := [''SuiteSparse'' \<mapsto> ''/opt/ss'']\<rparr>"
      and r = "''/opt/ss''"]
  have 1: "env_triple_opts (example_petsc ''3.5'' False False Map.empty)
     ''FFTW_INC_DIR'' ''FFTW_LIB_DIR'' ''FFTW_STATIC_LIBS'' ''--with-fftw'' = []"
    using a by (simp add: example_petsc_def truthy_def)
  have 2: "env_triple_opts
     (example_petsc ''3.5'' False False
        [''FFTW_INC_DIR'' \<mapsto> ''/opt/fftw/include'', ''FFTW_LIB_DIR'' \<mapsto> ''/opt/fftw/lib'',
         ''FFTW_STATIC_LIBS'' \<mapsto> ''libfftw3.a''])
     ''FFTW_INC_DIR'' ''FFTW_LIB_DIR'' ''FFTW_STATIC_LIBS'' ''--with-fftw'' =
     [''--with-fftw=1'', ''--with-fftw-include=/opt/fftw/include'',
      ''--with-fftw-lib=[/opt/fftw/lib/libfftw3.a]'']"
    using b by (simp add: example_petsc_def)
  have 3: "dep_opts (example_world []) ''3.5'' ''ParMETIS'' = []"
    using a by (simp add: example_world_def truthy_def)
  have 4: "dep_opts (example_world []) ''3.5'' ''SCOTCH'' = [''--with-ptscotch=1 --with-ptscotch-dir=/opt/scotch'']"
    using c by (simp add: example_world_def withdep_def version_facts lower_facts)
  have 5: "petsc_suitesparse (example_world []) (example_petsc ''3.5'' False False Map.empty) =
     Inr (example_petsc ''3.5'' False False Map.empty)"
    using a by (simp add: example_world_def truthy_def)
  have "petsc_suitesparse ((example_world [])\<lparr>get_software_root := [''SuiteSparse'' \<mapsto> ''/opt/ss'']\<rparr>)
        (example_petsc ''3.5'' False False Map.empty) =
      Inr (update_configopts (example_petsc ''3.5'' False False Map.empty)
        (suitesparse_opts ''3.5'' ''/opt/ss''))"
    using d by (simp add: example_petsc_def version_facts suitesparse_opts_new)
  then have 6: "map_sum fst configopts
     (petsc_suitesparse ((example_world [])\<lparr>get_software_root := [''SuiteSparse'' \<mapsto> ''/opt/ss'']\<rparr>)
        (example_petsc ''3.5'' False False Map.empty)) =
     Inr ('' --with-suitesparse=1 --with-suitesparse-include=[/opt/ss/UMFPACK/Include,/opt/s'' @
      ''s/KLU/Include,/opt/ss/CHOLMOD/Include,/opt/ss/BTF/Include,/opt/ss/CCOLAMD/Includ'' @
      ''e,/opt/ss/COLAMD/Include,/opt/ss/CAMD/Include,/opt/ss/AMD/Include,/opt/ss/SuiteS'' @
      ''parse_config] --with-suitesparse-lib=[/opt/ss/UMFPACK/Lib/libumfpack.a,/opt/ss/K'' @
      ''LU/Lib/libklu.a,/opt/ss/CHOLMOD/Lib/libcholmod.a,/opt/ss/BTF/Lib/libbtf.a,/opt/s'' @
      ''s/CCOLAMD/Lib/libccolamd.a,/opt/ss/COLAMD/Lib/libcolamd.a,/opt/ss/CAMD/Lib/libca'' @
      ''md.a,/opt/ss/AMD/Lib/libamd.a,/opt/ss/SuiteSparse_config/libsuitesparseconfig.a]'')"
    by (simp add: update_configopts_def cfg_update_def example_petsc_def suitesparse_opts_new version_facts)
  from 1 2 3 4 5 6 show ?thesis by (simp only: simp_thms)
qed

text \<open>C4 as stated fails for a dependency found by its software root: with SCOTCH
  installed under \<open>/opt/scotch\<close>, version 3.4 adds the two options \<open>--with-scotch=1\<close> and
  \<open>--with-scotch-dir=/opt/scotch\<close>, and neither an include nor a lib option.\<close>

theorem optional_dependency_counterexample:
  "map_sum (\<lambda>(e, self). (e, configopts self)) configopts
     (petsc_additional_deps (example_world []) (example_petsc ''3.4'' False False Map.empty)) =
   Inr '' --with-scotch=1 --with-scotch-dir=/opt/scotch''"
  by (simp add: petsc_additional_deps_def example_world_def example_petsc_def deps_def depfilter_def
      dep_opts_def withdep_def version_facts lower_facts truthy_def fmt_s_def updates_def
      update_configopts_def cfg_update_def)

end
